theory Spec2Isabelle
  imports Main "HOL-Library.AList"
begin

section \<open>The AST model (phply/phpast.py)\<close>

text \<open>
  The exceptions the modelled code can raise. Every failed \<^verbatim>\<open>assert\<close>, unbound name,
  missing attribute, index out of range and ill-typed operation of the source is a value
  of this type, returned as \<open>Inl\<close>.
\<close>

datatype error =
  AssertionError | AttributeError | NameError | IndexError | TypeError | RuntimeError

definition bindE :: "error + 'a \<Rightarrow> ('a \<Rightarrow> error + 'b) \<Rightarrow> error + 'b" where
  "bindE m f = (case m of Inl e \<Rightarrow> Inl e | Inr x \<Rightarrow> f x)"

fun mapE :: "('a \<Rightarrow> error + 'b) \<Rightarrow> 'a list \<Rightarrow> error + 'b list" where
  "mapE f [] = Inr []"
| "mapE f (x # xs) = bindE (f x) (\<lambda>y. bindE (mapE f xs) (\<lambda>ys. Inr (y # ys)))"

text \<open>
  A node class, as \<^verbatim>\<open>node(name, fields)\<close> (lines 50 to 52) makes it: a subclass of
  \<^verbatim>\<open>Node\<close> with the given name whose class attribute \<^verbatim>\<open>fields\<close> is the given list.
\<close>

datatype pyclass = PyClass (cname: string) (fields: "string list")

definition phpast_node :: "string \<Rightarrow> string list \<Rightarrow> pyclass" where
  "phpast_node name fs = PyClass name fs"

named_theorems phpast_defs \<open>the node classes of phpast.py, lines 54 to 116\<close>

definition InlineHTML :: pyclass where [phpast_defs]:
  "InlineHTML = phpast_node ''InlineHTML'' [''data'']"

definition Block :: pyclass where [phpast_defs]:
  "Block = phpast_node ''Block'' [''nodes'']"

definition Assignment :: pyclass where [phpast_defs]:
  "Assignment = phpast_node ''Assignment'' [''node'', ''expr'', ''is_ref'']"

definition ListAssignment :: pyclass where [phpast_defs]:
  "ListAssignment = phpast_node ''ListAssignment'' [''nodes'', ''expr'']"

definition New :: pyclass where [phpast_defs]:
  "New = phpast_node ''New'' [''name'', ''params'']"

definition Clone :: pyclass where [phpast_defs]:
  "Clone = phpast_node ''Clone'' [''node'']"

definition Break :: pyclass where [phpast_defs]:
  "Break = phpast_node ''Break'' [''node'']"

definition Continue :: pyclass where [phpast_defs]:
  "Continue = phpast_node ''Continue'' [''node'']"

definition Return :: pyclass where [phpast_defs]:
  "Return = phpast_node ''Return'' [''node'']"

definition Global :: pyclass where [phpast_defs]:
  "Global = phpast_node ''Global'' [''nodes'']"

definition Static :: pyclass where [phpast_defs]:
  "Static = phpast_node ''Static'' [''nodes'']"

definition Echo :: pyclass where [phpast_defs]:
  "Echo = phpast_node ''Echo'' [''nodes'']"

definition Print :: pyclass where [phpast_defs]:
  "Print = phpast_node ''Print'' [''node'']"

definition Unset :: pyclass where [phpast_defs]:
  "Unset = phpast_node ''Unset'' [''nodes'']"

definition Throw :: pyclass where [phpast_defs]:
  "Throw = phpast_node ''Throw'' [''node'']"

definition Function :: pyclass where [phpast_defs]:
  "Function = phpast_node ''Function'' [''name'', ''params'', ''nodes'', ''is_ref'']"

definition Method :: pyclass where [phpast_defs]:
  "Method = phpast_node ''Method'' [''name'', ''modifiers'', ''params'', ''nodes'', ''is_ref'']"

definition Class :: pyclass where [phpast_defs]:
  "Class = phpast_node ''Class'' [''name'', ''type'', ''extends'', ''implements'', ''nodes'']"

definition ClassConstants :: pyclass where [phpast_defs]:
  "ClassConstants = phpast_node ''ClassConstants'' [''nodes'']"

definition ClassConstant :: pyclass where [phpast_defs]:
  "ClassConstant = phpast_node ''ClassConstant'' [''name'', ''initial'']"

definition ClassVariables :: pyclass where [phpast_defs]:
  "ClassVariables = phpast_node ''ClassVariables'' [''modifiers'', ''nodes'']"

definition ClassVariable :: pyclass where [phpast_defs]:
  "ClassVariable = phpast_node ''ClassVariable'' [''name'', ''initial'']"

definition Interface :: pyclass where [phpast_defs]:
  "Interface = phpast_node ''Interface'' [''name'', ''extends'', ''nodes'']"

definition AssignOp :: pyclass where [phpast_defs]:
  "AssignOp = phpast_node ''AssignOp'' [''op'', ''left'', ''right'']"

definition BinaryOp :: pyclass where [phpast_defs]:
  "BinaryOp = phpast_node ''BinaryOp'' [''op'', ''left'', ''right'']"

definition UnaryOp :: pyclass where [phpast_defs]:
  "UnaryOp = phpast_node ''UnaryOp'' [''op'', ''expr'']"

definition TernaryOp :: pyclass where [phpast_defs]:
  "TernaryOp = phpast_node ''TernaryOp'' [''expr'', ''iftrue'', ''iffalse'']"

definition PreIncDecOp :: pyclass where [phpast_defs]:
  "PreIncDecOp = phpast_node ''PreIncDecOp'' [''op'', ''expr'']"

definition PostIncDecOp :: pyclass where [phpast_defs]:
  "PostIncDecOp = phpast_node ''PostIncDecOp'' [''op'', ''expr'']"

definition Cast :: pyclass where [phpast_defs]:
  "Cast = phpast_node ''Cast'' [''type'', ''expr'']"

definition IsSet :: pyclass where [phpast_defs]:
  "IsSet = phpast_node ''IsSet'' [''expr'']"

definition Empty :: pyclass where [phpast_defs]:
  "Empty = phpast_node ''Empty'' [''expr'']"

definition Eval :: pyclass where [phpast_defs]:
  "Eval = phpast_node ''Eval'' [''expr'']"

definition Include :: pyclass where [phpast_defs]:
  "Include = phpast_node ''Include'' [''expr'', ''once'']"

definition Require :: pyclass where [phpast_defs]:
  "Require = phpast_node ''Require'' [''expr'', ''once'']"

definition Exit :: pyclass where [phpast_defs]:
  "Exit = phpast_node ''Exit'' [''expr'']"

definition Silence :: pyclass where [phpast_defs]:
  "Silence = phpast_node ''Silence'' [''expr'']"

definition MagicConstant :: pyclass where [phpast_defs]:
  "MagicConstant = phpast_node ''MagicConstant'' [''name'', ''value'']"

definition Constant :: pyclass where [phpast_defs]:
  "Constant = phpast_node ''Constant'' [''name'']"

definition Variable :: pyclass where [phpast_defs]:
  "Variable = phpast_node ''Variable'' [''name'']"

definition StaticVariable :: pyclass where [phpast_defs]:
  "StaticVariable = phpast_node ''StaticVariable'' [''name'', ''initial'']"

definition FormalParameter :: pyclass where [phpast_defs]:
  "FormalParameter = phpast_node ''FormalParameter'' [''name'', ''default'', ''is_ref'']"

definition Parameter :: pyclass where [phpast_defs]:
  "Parameter = phpast_node ''Parameter'' [''node'', ''is_ref'']"

definition FunctionCall :: pyclass where [phpast_defs]:
  "FunctionCall = phpast_node ''FunctionCall'' [''name'', ''params'']"

definition Array :: pyclass where [phpast_defs]:
  "Array = phpast_node ''Array'' [''nodes'']"

definition ArrayElement :: pyclass where [phpast_defs]:
  "ArrayElement = phpast_node ''ArrayElement'' [''name'', ''node'', ''is_ref'']"

definition ArrayOffset :: pyclass where [phpast_defs]:
  "ArrayOffset = phpast_node ''ArrayOffset'' [''node'', ''expr'']"

definition StringOffset :: pyclass where [phpast_defs]:
  "StringOffset = phpast_node ''StringOffset'' [''node'', ''expr'']"

definition ObjectProperty :: pyclass where [phpast_defs]:
  "ObjectProperty = phpast_node ''ObjectProperty'' [''node'', ''name'']"

definition StaticProperty :: pyclass where [phpast_defs]:
  "StaticProperty = phpast_node ''StaticProperty'' [''node'', ''name'']"

definition MethodCall :: pyclass where [phpast_defs]:
  "MethodCall = phpast_node ''MethodCall'' [''node'', ''name'', ''params'']"

definition ScopeResolution :: pyclass where [phpast_defs]:
  "ScopeResolution = phpast_node ''ScopeResolution'' [''class_'', ''node'']"

definition If :: pyclass where [phpast_defs]:
  "If = phpast_node ''If'' [''expr'', ''node'', ''elseifs'', ''else_'']"

definition ElseIf :: pyclass where [phpast_defs]:
  "ElseIf = phpast_node ''ElseIf'' [''expr'', ''node'']"

definition Else :: pyclass where [phpast_defs]:
  "Else = phpast_node ''Else'' [''node'']"

definition While :: pyclass where [phpast_defs]:
  "While = phpast_node ''While'' [''expr'', ''node'']"

definition DoWhile :: pyclass where [phpast_defs]:
  "DoWhile = phpast_node ''DoWhile'' [''node'', ''expr'']"

definition For :: pyclass where [phpast_defs]:
  "For = phpast_node ''For'' [''start'', ''test'', ''count'', ''node'']"

definition ForEach :: pyclass where [phpast_defs]:
  "ForEach = phpast_node ''ForEach'' [''expr'', ''keyvar'', ''valvar'', ''node'']"

definition ForEachVariable :: pyclass where [phpast_defs]:
  "ForEachVariable = phpast_node ''ForEachVariable'' [''name'', ''is_ref'']"

definition Switch :: pyclass where [phpast_defs]:
  "Switch = phpast_node ''Switch'' [''expr'', ''nodes'']"

definition Case :: pyclass where [phpast_defs]:
  "Case = phpast_node ''Case'' [''expr'', ''nodes'']"

definition Default :: pyclass where [phpast_defs]:
  "Default = phpast_node ''Default'' [''nodes'']"

text \<open>
  The names that \<^verbatim>\<open>from phply.phpast import *\<close> binds to node classes in the translator's
  module: every class that phpast.py defines, under the name it is assigned to there.
\<close>

definition phpast_module :: "(string \<times> pyclass) list" where
  "phpast_module =
    [(''InlineHTML'', InlineHTML), (''Block'', Block), (''Assignment'', Assignment),
     (''ListAssignment'', ListAssignment), (''New'', New), (''Clone'', Clone),
     (''Break'', Break), (''Continue'', Continue), (''Return'', Return),
     (''Global'', Global), (''Static'', Static), (''Echo'', Echo), (''Print'', Print),
     (''Unset'', Unset), (''Throw'', Throw), (''Function'', Function),
     (''Method'', Method), (''Class'', Class), (''ClassConstants'', ClassConstants),
     (''ClassConstant'', ClassConstant), (''ClassVariables'', ClassVariables),
     (''ClassVariable'', ClassVariable), (''Interface'', Interface),
     (''AssignOp'', AssignOp), (''BinaryOp'', BinaryOp), (''UnaryOp'', UnaryOp),
     (''TernaryOp'', TernaryOp), (''PreIncDecOp'', PreIncDecOp),
     (''PostIncDecOp'', PostIncDecOp), (''Cast'', Cast), (''IsSet'', IsSet),
     (''Empty'', Empty), (''Eval'', Eval), (''Include'', Include), (''Require'', Require),
     (''Exit'', Exit), (''Silence'', Silence), (''MagicConstant'', MagicConstant),
     (''Constant'', Constant), (''Variable'', Variable),
     (''StaticVariable'', StaticVariable), (''FormalParameter'', FormalParameter),
     (''Parameter'', Parameter), (''FunctionCall'', FunctionCall), (''Array'', Array),
     (''ArrayElement'', ArrayElement), (''ArrayOffset'', ArrayOffset),
     (''StringOffset'', StringOffset), (''ObjectProperty'', ObjectProperty),
     (''StaticProperty'', StaticProperty), (''MethodCall'', MethodCall),
     (''ScopeResolution'', ScopeResolution), (''If'', If), (''ElseIf'', ElseIf),
     (''Else'', Else), (''While'', While), (''DoWhile'', DoWhile), (''For'', For),
     (''ForEach'', ForEach), (''ForEachVariable'', ForEachVariable), (''Switch'', Switch),
     (''Case'', Case), (''Default'', Default)]"

text \<open>
  The Python values an AST holds: \<^verbatim>\<open>None\<close>, booleans, integers, strings, lists, and
  instances of the node classes. An instance is its class together with its attribute
  dictionary, an association list from attribute names to values. A Python \<^verbatim>\<open>str\<close> is
  an Isabelle string, one character per code point (code points below 256). Floating
  point values are left out of the model.
\<close>

datatype pyval =
    PNone
  | PBool bool
  | PInt int
  | PStr string
  | PList "pyval list"
  | Obj pyclass "(string \<times> pyval) list"

text \<open>
  \<^verbatim>\<open>setattr(self, field, v)\<close> and \<^verbatim>\<open>getattr(self, field)\<close> on the attribute dictionary.
  Reading an attribute that the instance does not have raises AttributeError; the
  values that are not node instances have none of the attributes the translator reads.
\<close>

definition setattr :: "(string \<times> pyval) list \<Rightarrow> string \<Rightarrow> pyval \<Rightarrow> (string \<times> pyval) list" where
  "setattr attrs field v = AList.update field v attrs"

fun getattr :: "pyval \<Rightarrow> string \<Rightarrow> error + pyval" where
  "getattr (Obj c attrs) field =
     (case map_of attrs field of None \<Rightarrow> Inl AttributeError | Some v \<Rightarrow> Inr v)"
| "getattr _ field = Inl AttributeError"

text \<open>
  \<^verbatim>\<open>Node.__init__(self, *args, **kwargs)\<close>, lines 10 to 19: the assertion on the number
  of positional arguments, then \<^verbatim>\<open>lineno\<close> from the keyword arguments (\<^verbatim>\<open>None\<close> when
  the keyword is absent), then one \<^verbatim>\<open>setattr\<close> per declared field, in order.
  \<open>init_attrs\<close> is the attribute dictionary that lines 14 to 19 build.
\<close>

definition init_attrs :: "pyclass \<Rightarrow> pyval list \<Rightarrow> pyval option \<Rightarrow> (string \<times> pyval) list" where
  "init_attrs c args lineno =
     foldl (\<lambda>attrs (i, field). setattr attrs field (args ! i))
       [(''lineno'', case lineno of None \<Rightarrow> PNone | Some l \<Rightarrow> l)]
       (enumerate 0 (fields c))"

definition Node_init :: "pyclass \<Rightarrow> pyval list \<Rightarrow> pyval option \<Rightarrow> error + pyval" where
  "Node_init c args lineno =
     (if length (fields c) \<noteq> length args then Inl AssertionError
      else Inr (Obj c (init_attrs c args lineno)))"

text \<open>
  The instance that a call \<^verbatim>\<open>C(a1, ..., an)\<close> without \<^verbatim>\<open>lineno\<close> returns when \<open>n\<close> is the
  number of fields of \<open>C\<close>; it is used to write down concrete trees.
\<close>

definition mk :: "pyclass \<Rightarrow> pyval list \<Rightarrow> pyval" where
  "mk c args = Obj c (init_attrs c args None)"

section \<open>Python built-ins used by the translator\<close>

text \<open>\<^verbatim>\<open>sep.join(items)\<close> on strings.\<close>

fun join :: "string \<Rightarrow> string list \<Rightarrow> string" where
  "join sep [] = []"
| "join sep [x] = x"
| "join sep (x # y # ys) = x @ sep @ join sep (y # ys)"

text \<open>\<^verbatim>\<open>str(i)\<close> of an integer: decimal digits, with a minus sign when negative.\<close>

fun str_nat :: "nat \<Rightarrow> string" where
  "str_nat n =
     (if n < 10 then [char_of (48 + n)]
      else str_nat (n div 10) @ [char_of (48 + n mod 10)])"

definition str_int :: "int \<Rightarrow> string" where
  "str_int i = (if i < 0 then CHR ''-'' # str_nat (nat (- i)) else str_nat (nat i))"

text \<open>
  \<^verbatim>\<open>repr(s)\<close> of a string. The quote is the double quote when the string holds a single
  quote and no double quote, and the single quote otherwise. The quote and the
  backslash are escaped with a backslash, tab, newline and carriage return are written
  \<^verbatim>\<open>\t\<close>, \<^verbatim>\<open>\n\<close>, \<^verbatim>\<open>\r\<close>, and the other code points that are not printable (below
  0x20, 0x7f to 0xa0, and 0xad) are written \<^verbatim>\<open>\xNN\<close> in lower-case hexadecimal.
\<close>

definition hexdigit :: "nat \<Rightarrow> char" where
  "hexdigit n = (if n < 10 then char_of (48 + n) else char_of (87 + n))"

definition repr_char :: "char \<Rightarrow> char \<Rightarrow> string" where
  "repr_char q c =
     (if c = q \<or> c = CHR 0x5C then [CHR 0x5C, c]
      else if c = CHR 0x09 then [CHR 0x5C, CHR ''t'']
      else if c = CHR 0x0A then [CHR 0x5C, CHR ''n'']
      else if c = CHR 0x0D then [CHR 0x5C, CHR ''r'']
      else if of_char c < (0x20 :: nat) \<or> (0x7F \<le> (of_char c :: nat) \<and> (of_char c :: nat) \<le> 0xA0)
              \<or> c = CHR 0xAD
        then [CHR 0x5C, CHR ''x'', hexdigit (of_char c div 16), hexdigit (of_char c mod 16)]
      else [c])"

definition repr_str :: "string \<Rightarrow> string" where
  "repr_str s =
     (let q = (if CHR 0x27 \<in> set s \<and> CHR 0x22 \<notin> set s then CHR 0x22 else CHR 0x27)
      in q # concat (map (repr_char q) s) @ [q])"

text \<open>
  \<^verbatim>\<open>s.replace(old, new)\<close>: the occurrences of \<open>old\<close> are found from left to right and
  do not overlap; the text after a replaced occurrence is scanned from its end. With an
  empty \<open>old\<close>, \<open>new\<close> is put before every character and at the end.
\<close>

function replace :: "string \<Rightarrow> string \<Rightarrow> string \<Rightarrow> string" where
  "replace old new s =
     (if old = [] then new @ concat (map (\<lambda>c. c # new) s)
      else if s = [] then []
      else if take (length old) s = old then new @ replace old new (drop (length old) s)
      else hd s # replace old new (tl s))"
  by pat_completeness auto
termination
  by (relation "measure (\<lambda>(old, new, s). length s)") auto

text \<open>
  The blank-line clean-up of the driver, line 267:
  \<^verbatim>\<open>jinja = jinja.replace("\n\n", "\n")\<close>.
\<close>

definition collapse :: "string \<Rightarrow> string" where
  "collapse jinja = replace [CHR 0x0A, CHR 0x0A] [CHR 0x0A] jinja"

text \<open>Whether a text holds two, or three, newlines in a row.\<close>

fun two_newlines :: "string \<Rightarrow> bool" where
  "two_newlines [] = False"
| "two_newlines [a] = False"
| "two_newlines (a # b # s) = ((a = CHR 0x0A \<and> b = CHR 0x0A) \<or> two_newlines (b # s))"

fun three_newlines :: "string \<Rightarrow> bool" where
  "three_newlines [] = False"
| "three_newlines [a] = False"
| "three_newlines [a, b] = False"
| "three_newlines (a # b # c # s) =
     ((a = CHR 0x0A \<and> b = CHR 0x0A \<and> c = CHR 0x0A) \<or> three_newlines (b # c # s))"


section \<open>Operations on Python values\<close>

lemma bindE_cong [fundef_cong]:
  "m = m' \<Longrightarrow> (\<And>x. m' = Inr x \<Longrightarrow> f x = f' x) \<Longrightarrow> bindE m f = bindE m' f'"
  by (auto simp: bindE_def split: sum.splits)

lemma mapE_cong [fundef_cong]:
  "xs = ys \<Longrightarrow> (\<And>x. x \<in> set ys \<Longrightarrow> f x = g x) \<Longrightarrow> mapE f xs = mapE g ys"
  by (induction ys arbitrary: xs) (auto cong: bindE_cong)

lemma map_of_size: "map_of attrs f = Some v \<Longrightarrow> size v < Suc (size_list (size_prod (\<lambda>_. 0) size) attrs)"
  by (induction attrs) (auto split: if_splits)

lemma getattr_size: "getattr n f = Inr v \<Longrightarrow> size v < size n"
  by (cases n) (auto split: option.splits dest: map_of_size)

lemma elem_size: "x \<in> set xs \<Longrightarrow> size x < size (PList xs)"
  by (induction xs) auto

text \<open>
  \<^verbatim>\<open>repr(v)\<close>. For a node instance this is \<^verbatim>\<open>Node.__repr__\<close>, lines 21 to 24: the class
  name and, in parentheses, the \<^verbatim>\<open>repr\<close> of the value of each declared field.
\<close>

function py_repr :: "pyval \<Rightarrow> error + string" where
  "py_repr PNone = Inr ''None''"
| "py_repr (PBool b) = Inr (if b then ''True'' else ''False'')"
| "py_repr (PInt i) = Inr (str_int i)"
| "py_repr (PStr s) = Inr (repr_str s)"
| "py_repr (PList xs) =
     bindE (mapE (\<lambda>x. py_repr x) xs) (\<lambda>rs. Inr (''['' @ join '', '' rs @ '']''))"
| "py_repr (Obj c attrs) =
     bindE (mapE (\<lambda>field. bindE (getattr (Obj c attrs) field) (\<lambda>v. py_repr v)) (fields c))
       (\<lambda>rs. Inr (cname c @ ''('' @ join '', '' rs @ '')''))"
  by pat_completeness auto
termination
  by (relation "measure size") (auto dest: getattr_size elem_size simp del: getattr.simps)

text \<open>\<^verbatim>\<open>str(v)\<close>, also what the \<^verbatim>\<open>%s\<close> conversion of string formatting produces.\<close>

definition py_str :: "pyval \<Rightarrow> error + string" where
  "py_str v = (case v of PStr s \<Rightarrow> Inr s | _ \<Rightarrow> py_repr v)"

text \<open>
  The truth value of \<open>v\<close> in a condition. The node classes define neither
  \<^verbatim>\<open>__bool__\<close> nor \<^verbatim>\<open>__len__\<close>, so a node instance is true.
\<close>

fun truthy :: "pyval \<Rightarrow> bool" where
  "truthy PNone = False"
| "truthy (PBool b) = b"
| "truthy (PInt i) = (i \<noteq> 0)"
| "truthy (PStr s) = (s \<noteq> [])"
| "truthy (PList xs) = (xs \<noteq> [])"
| "truthy (Obj c attrs) = True"

text \<open>Iteration (\<^verbatim>\<open>for x in v\<close>), \<^verbatim>\<open>len(v)\<close>, \<^verbatim>\<open>v[i]\<close> for \<open>i \<ge> 0\<close>, and the slice \<^verbatim>\<open>v[i:]\<close>.\<close>

fun py_iter :: "pyval \<Rightarrow> error + pyval list" where
  "py_iter (PList xs) = Inr xs"
| "py_iter (PStr s) = Inr (map (\<lambda>c. PStr [c]) s)"
| "py_iter _ = Inl TypeError"

fun py_len :: "pyval \<Rightarrow> error + nat" where
  "py_len (PList xs) = Inr (length xs)"
| "py_len (PStr s) = Inr (length s)"
| "py_len _ = Inl TypeError"

fun py_index :: "pyval \<Rightarrow> nat \<Rightarrow> error + pyval" where
  "py_index (PList xs) i = (if i < length xs then Inr (xs ! i) else Inl IndexError)"
| "py_index (PStr s) i = (if i < length s then Inr (PStr [s ! i]) else Inl IndexError)"
| "py_index _ i = Inl TypeError"

fun slice_from :: "nat \<Rightarrow> pyval \<Rightarrow> error + pyval" where
  "slice_from i (PList xs) = Inr (PList (drop i xs))"
| "slice_from i (PStr s) = Inr (PStr (drop i s))"
| "slice_from i _ = Inl TypeError"

text \<open>
  \<^verbatim>\<open>s.lower()\<close> and \<^verbatim>\<open>s.endswith(suffix)\<close>: methods of \<^verbatim>\<open>str\<close>, so AttributeError on the
  other values. Lower-casing maps A to Z, and the capital letters 0xC0 to 0xDE other
  than the multiplication sign 0xD7, to the code point 32 above.
\<close>

definition lower_char :: "char \<Rightarrow> char" where
  "lower_char c =
     (let n = (of_char c :: nat)
      in if (65 \<le> n \<and> n \<le> 90) \<or> (192 \<le> n \<and> n \<le> 222 \<and> n \<noteq> 215) then char_of (n + 32) else c)"

fun py_lower :: "pyval \<Rightarrow> error + string" where
  "py_lower (PStr s) = Inr (map lower_char s)"
| "py_lower _ = Inl AttributeError"

fun py_endswith :: "pyval \<Rightarrow> string \<Rightarrow> error + bool" where
  "py_endswith (PStr s) suffix =
     Inr (length suffix \<le> length s \<and> drop (length s - length suffix) s = suffix)"
| "py_endswith _ suffix = Inl AttributeError"

text \<open>
  Whether \<open>v\<close> can be a dictionary key. Lists are not hashable, and neither are node
  instances: \<^verbatim>\<open>Node\<close> defines \<^verbatim>\<open>__eq__\<close> (line 26) and no \<^verbatim>\<open>__hash__\<close>.
\<close>

fun hashable :: "pyval \<Rightarrow> bool" where
  "hashable (PList xs) = False"
| "hashable (Obj c attrs) = False"
| "hashable _ = True"

text \<open>\<^verbatim>\<open>sep.join(items)\<close> where the items may be any values: TypeError unless all are strings.\<close>

fun the_str :: "pyval \<Rightarrow> error + string" where
  "the_str (PStr s) = Inr s"
| "the_str _ = Inl TypeError"

definition str_join :: "string \<Rightarrow> pyval list \<Rightarrow> error + string" where
  "str_join sep items = bindE (mapE the_str items) (\<lambda>ss. Inr (join sep ss))"


section \<open>The translator (tools/php2jinja.py)\<close>

text \<open>
  The command line options that the translation reads (lines 17 to 19), and the two
  module-level variables that \<^verbatim>\<open>unparse_node\<close> updates (lines 26 and 28): the registry
  of observed function calls, a dictionary from callee names to the list of call nodes,
  kept in insertion order, and the counter for loop variable names.
\<close>

datatype args =
  Args (use_line_statements: bool) (stubs: "string option") (dry_run: bool)

datatype state =
  State (called_functions: "(pyval \<times> pyval list) list") (loop_var_index: int)

type_synonym unparser = "pyval \<Rightarrow> bool \<Rightarrow> nat \<Rightarrow> state \<Rightarrow> error + (string \<times> state)"

abbreviation NL :: string where
  "NL \<equiv> [CHR 0x0A]"

definition indent_with :: string where
  "indent_with = [CHR 0x09]"

definition str_times :: "string \<Rightarrow> nat \<Rightarrow> string" where
  "str_times s n = concat (replicate n s)"

text \<open>The tag generators, lines 33 to 42.\<close>

definition jstatement :: "args \<Rightarrow> string list \<Rightarrow> nat \<Rightarrow> bool \<Rightarrow> bool \<Rightarrow> bool \<Rightarrow> string" where
  "jstatement cfg items indent inline lstrip rstrip =
     (if \<not> inline \<and> use_line_statements cfg
      then NL @ ''# '' @ str_times indent_with indent @ join '' '' items @ NL
      else str_times indent_with indent @ ''{%'' @ (if lstrip then ''-'' else []) @ '' ''
             @ join '' '' items @ '' '' @ (if rstrip then ''-'' else []) @ ''%}'')"

definition jexpr :: "string \<Rightarrow> nat \<Rightarrow> bool \<Rightarrow> bool \<Rightarrow> string" where
  "jexpr body indent lstrip rstrip =
     str_times indent_with indent @ ''{{'' @ (if lstrip then ''-'' else []) @ '' ''
       @ body @ '' '' @ (if rstrip then ''-'' else []) @ ''}}''"

definition jcomment :: "string \<Rightarrow> string" where
  "jcomment body = ''{# '' @ body @ '' #}''"

definition op_map :: "(string \<times> string) list" where
  "op_map =
     [(''&&'', ''and''), (''||'', ''or''), (''!'', ''not''), (''!=='', ''!=''),
      (''==='', ''==''), (''.'', ''~'')]"

definition constant_map :: "(string \<times> string) list" where
  "constant_map = [(''null'', ''none''), (''true'', ''true''), (''false'', ''false'')]"

text \<open>\<^verbatim>\<open>op_map.get(op, op)\<close>: TypeError when \<open>op\<close> is not hashable.\<close>

definition op_map_get :: "pyval \<Rightarrow> error + pyval" where
  "op_map_get op =
     (if \<not> hashable op then Inl TypeError
      else case op of
          PStr k \<Rightarrow> (case map_of op_map k of Some v \<Rightarrow> Inr (PStr v) | None \<Rightarrow> Inr op)
        | _ \<Rightarrow> Inr op)"

text \<open>
  A class name in the body of \<^verbatim>\<open>unparse_node\<close> is a global of the translator's module.
  The module binds node classes by \<^verbatim>\<open>from phply.phpast import *\<close> (line 12) only, so the
  name denotes the class that phpast.py assigns to it, and evaluating a name that
  phpast.py does not define raises NameError. \<open>isinstance\<close> takes the class by its name
  and evaluates the name; no node class is a subclass of another one.
\<close>

definition global_name :: "string \<Rightarrow> error + pyclass" where
  "global_name name =
     (case map_of phpast_module name of None \<Rightarrow> Inl NameError | Some c \<Rightarrow> Inr c)"

definition isinstance :: "pyval \<Rightarrow> string \<Rightarrow> error + bool" where
  "isinstance v name =
     bindE (global_name name) (\<lambda>c. Inr (case v of Obj c' attrs \<Rightarrow> c' = c | _ \<Rightarrow> False))"

text \<open>
  \<^verbatim>\<open>isinstance(node, (str, int, float))\<close>, line 67; \<^verbatim>\<open>bool\<close> is a subclass of \<^verbatim>\<open>int\<close>.
\<close>

fun is_scalar :: "pyval \<Rightarrow> bool" where
  "is_scalar (PStr s) = True"
| "is_scalar (PInt i) = True"
| "is_scalar (PBool b) = True"
| "is_scalar _ = False"

text \<open>
  \<^verbatim>\<open>called_functions.setdefault(name, []).append(node)\<close>, line 210. Dictionary keys are
  compared with \<^verbatim>\<open>==\<close>, under which \<^verbatim>\<open>True\<close> is 1 and \<^verbatim>\<open>False\<close> is 0.
\<close>

fun key_norm :: "pyval \<Rightarrow> pyval" where
  "key_norm (PBool b) = PInt (if b then 1 else 0)"
| "key_norm v = v"

fun record_call :: "pyval \<Rightarrow> pyval \<Rightarrow> (pyval \<times> pyval list) list \<Rightarrow> (pyval \<times> pyval list) list" where
  "record_call name n [] = [(name, [n])]"
| "record_call name n ((k, ns) # reg) =
     (if key_norm k = key_norm name then (k, ns @ [n]) # reg
      else (k, ns) # record_call name n reg)"

text \<open>
  A loop or comprehension whose body calls a function that reads and updates the state:
  the calls are made from left to right and the first exception ends the loop.
\<close>

fun mapS :: "('a \<Rightarrow> 's \<Rightarrow> error + ('b \<times> 's)) \<Rightarrow> 'a list \<Rightarrow> 's \<Rightarrow> error + ('b list \<times> 's)" where
  "mapS f [] s = Inr ([], s)"
| "mapS f (x # xs) s =
     bindE (f x s) (\<lambda>(y, s1). bindE (mapS f xs s1) (\<lambda>(ys, s2). Inr (y # ys, s2)))"

text \<open>\<^verbatim>\<open>unparse_node(x, is_expr)\<close> for each \<open>x\<close> of the iterable \<open>v\<close>.\<close>

definition each_node :: "unparser \<Rightarrow> bool \<Rightarrow> pyval \<Rightarrow> state \<Rightarrow> error + (string list \<times> state)" where
  "each_node rec is_expr v s = bindE (py_iter v) (\<lambda>xs. mapS (\<lambda>x. rec x is_expr 0) xs s)"

text \<open>
  The branches of \<^verbatim>\<open>unparse_node\<close>, lines 64 to 243, one definition per \<^verbatim>\<open>if\<close> of the
  source, in the order of the source. \<open>rec\<close> stands for the recursive calls of
  \<^verbatim>\<open>unparse_node\<close>; the arguments of a call are (node, is_expr, indent), with the defaults
  \<open>False\<close> and 0. The operands of a format expression are evaluated from left to right.
\<close>

definition unparse_InlineHTML :: "pyval \<Rightarrow> state \<Rightarrow> error + (string \<times> state)" where
  "unparse_InlineHTML node s =
     bindE (getattr node ''data'') (\<lambda>data. bindE (py_str data) (\<lambda>t. Inr (t, s)))"

definition unparse_Constant :: "pyval \<Rightarrow> state \<Rightarrow> error + (string \<times> state)" where
  "unparse_Constant node s =
     bindE (getattr node ''name'') (\<lambda>name.
     bindE (py_lower name) (\<lambda>low.
     bindE (py_str name) (\<lambda>dflt.
       Inr (case map_of constant_map low of Some v \<Rightarrow> v | None \<Rightarrow> dflt, s))))"

definition unparse_Variable :: "pyval \<Rightarrow> state \<Rightarrow> error + (string \<times> state)" where
  "unparse_Variable node s =
     bindE (getattr node ''name'') (\<lambda>name.
     bindE (slice_from 1 name) (\<lambda>v.
     bindE (py_str v) (\<lambda>t. Inr (t, s))))"

definition unparse_Echo :: "unparser \<Rightarrow> pyval \<Rightarrow> state \<Rightarrow> error + (string \<times> state)" where
  "unparse_Echo rec node s =
     bindE (getattr node ''nodes'') (\<lambda>nodes.
     bindE (each_node rec True nodes s) (\<lambda>(ts, s1).
       Inr (jexpr (concat ts @ '' | safe'') 0 False True, s1)))"

definition unparse_Include :: "unparser \<Rightarrow> pyval \<Rightarrow> state \<Rightarrow> error + (string \<times> state)" where
  "unparse_Include rec node s =
     bindE (getattr node ''expr'') (\<lambda>e.
     bindE (rec e True 0 s) (\<lambda>(t, s1).
       Inr (''{% include '' @ t @ '' -%}'', s1)))"

definition unparse_Block :: "unparser \<Rightarrow> pyval \<Rightarrow> state \<Rightarrow> error + (string \<times> state)" where
  "unparse_Block rec node s =
     bindE (getattr node ''nodes'') (\<lambda>nodes.
     bindE (each_node rec False nodes s) (\<lambda>(ts, s1). Inr (concat ts, s1)))"

definition unparse_ArrayOffset :: "unparser \<Rightarrow> pyval \<Rightarrow> state \<Rightarrow> error + (string \<times> state)" where
  "unparse_ArrayOffset rec node s =
     bindE (getattr node ''node'') (\<lambda>n.
     bindE (rec n True 0 s) (\<lambda>(t1, s1).
     bindE (getattr node ''expr'') (\<lambda>e.
     bindE (rec e True 0 s1) (\<lambda>(t2, s2).
       Inr (t1 @ ''['' @ t2 @ '']'', s2)))))"

definition unparse_ObjectProperty :: "unparser \<Rightarrow> pyval \<Rightarrow> state \<Rightarrow> error + (string \<times> state)" where
  "unparse_ObjectProperty rec node s =
     bindE (getattr node ''node'') (\<lambda>n.
     bindE (rec n True 0 s) (\<lambda>(t, s1).
     bindE (getattr node ''name'') (\<lambda>name.
     bindE (py_str name) (\<lambda>nm.
       Inr (t @ ''.'' @ nm, s1)))))"

definition unparse_Array :: "unparser \<Rightarrow> pyval \<Rightarrow> state \<Rightarrow> error + (string \<times> state)" where
  "unparse_Array rec node s =
     bindE (getattr node ''nodes'') (\<lambda>nodes.
     bindE (each_node rec True nodes s) (\<lambda>(elems, s1).
     bindE (if truthy nodes
            then bindE (py_index nodes 0) (\<lambda>first.
                 bindE (getattr first ''key'') (\<lambda>key. Inr (key \<noteq> PNone)))
            else Inr False) (\<lambda>keyed.
       Inr (if keyed then ''{'' @ join '', '' elems @ ''}''
            else ''['' @ join '', '' elems @ '']'', s1))))"

definition unparse_ArrayElement :: "unparser \<Rightarrow> pyval \<Rightarrow> state \<Rightarrow> error + (string \<times> state)" where
  "unparse_ArrayElement rec node s =
     bindE (getattr node ''key'') (\<lambda>key.
       if truthy key
       then bindE (rec key True 0 s) (\<lambda>(tk, s1).
            bindE (getattr node ''value'') (\<lambda>v.
            bindE (rec v True 0 s1) (\<lambda>(tv, s2).
              Inr (tk @ '': '' @ tv, s2))))
       else bindE (getattr node ''value'') (\<lambda>v. rec v True 0 s))"

text \<open>
  Line 114 passes \<^verbatim>\<open>None\<close> as \<^verbatim>\<open>is_expr\<close> for the container; \<^verbatim>\<open>is_expr\<close> is only ever
  tested for truth, and \<^verbatim>\<open>None\<close> is false.
\<close>

definition unparse_Assignment :: "args \<Rightarrow> unparser \<Rightarrow> pyval \<Rightarrow> state \<Rightarrow> error + (string \<times> state)" where
  "unparse_Assignment cfg rec node s =
     bindE (getattr node ''node'') (\<lambda>lhs.
     bindE (isinstance lhs ''ArrayOffset'') (\<lambda>is_offset.
     bindE (if is_offset then bindE (getattr lhs ''expr'') (\<lambda>e. Inr (e = PNone))
            else Inr False) (\<lambda>is_append.
       if is_append
       then bindE (getattr lhs ''node'') (\<lambda>container.
            bindE (rec container False 0 s) (\<lambda>(tc, s1).
            bindE (getattr node ''expr'') (\<lambda>rhs.
            bindE (rec rhs True 0 s1) (\<lambda>(tr, s2).
              Inr (''{% do '' @ tc @ ''.append('' @ tr @ '') -%}'', s2)))))
       else bindE (rec lhs True 0 s) (\<lambda>(tl, s1).
            bindE (getattr node ''expr'') (\<lambda>rhs.
            bindE (rec rhs True 0 s1) (\<lambda>(tr, s2).
              Inr (jstatement cfg [''set'', tl, ''='', tr] 0 False False True, s2)))))))"

text \<open>
  Lines 120 to 124. \<open>AssignOp_concat\<close> is the test \<^verbatim>\<open>node.op == '.='\<close>; when it fails,
  nothing is returned and the evaluation goes on with the tests that follow.
\<close>

definition AssignOp_concat :: "pyval \<Rightarrow> error + bool" where
  "AssignOp_concat node = bindE (getattr node ''op'') (\<lambda>op. Inr (op = PStr ''.=''))"

definition unparse_AssignOp :: "unparser \<Rightarrow> pyval \<Rightarrow> state \<Rightarrow> error + (string \<times> state)" where
  "unparse_AssignOp rec node s =
     bindE (getattr node ''left'') (\<lambda>l.
     bindE (rec l True 0 s) (\<lambda>(variable, s1).
     bindE (getattr node ''right'') (\<lambda>r.
     bindE (rec r True 0 s1) (\<lambda>(tr, s2).
       Inr (''{% set '' @ variable @ '' = '' @ variable @ '' ~ '' @ tr @ '' -%}'', s2)))))"

definition unparse_UnaryOp :: "unparser \<Rightarrow> pyval \<Rightarrow> state \<Rightarrow> error + (string \<times> state)" where
  "unparse_UnaryOp rec node s =
     bindE (getattr node ''op'') (\<lambda>op0.
     bindE (op_map_get op0) (\<lambda>op.
     bindE (getattr node ''expr'') (\<lambda>e.
     bindE (rec e True 0 s) (\<lambda>(t, s1).
     bindE (py_str op) (\<lambda>opt.
       Inr (''('' @ opt @ '' '' @ t @ '')'', s1))))))"

definition unparse_BinaryOp :: "unparser \<Rightarrow> pyval \<Rightarrow> state \<Rightarrow> error + (string \<times> state)" where
  "unparse_BinaryOp rec node s =
     bindE (getattr node ''op'') (\<lambda>op0.
     bindE (op_map_get op0) (\<lambda>op.
     bindE (getattr node ''left'') (\<lambda>l.
     bindE (rec l True 0 s) (\<lambda>(tl, s1).
     bindE (getattr node ''right'') (\<lambda>r.
     bindE (rec r True 0 s1) (\<lambda>(tr, s2).
     bindE (py_str op) (\<lambda>opt.
       Inr (''('' @ tl @ '' '' @ opt @ '' '' @ tr @ '')'', s2))))))))"

definition unparse_TernaryOp :: "unparser \<Rightarrow> pyval \<Rightarrow> state \<Rightarrow> error + (string \<times> state)" where
  "unparse_TernaryOp rec node s =
     bindE (getattr node ''iftrue'') (\<lambda>a.
     bindE (rec a True 0 s) (\<lambda>(ta, s1).
     bindE (getattr node ''expr'') (\<lambda>c.
     bindE (rec c True 0 s1) (\<lambda>(tc, s2).
     bindE (getattr node ''iffalse'') (\<lambda>b.
     bindE (rec b True 0 s2) (\<lambda>(tb, s3).
       Inr (''('' @ ta @ '' if '' @ tc @ '' else '' @ tb @ '')'', s3)))))))"

definition unparse_IsSet :: "unparser \<Rightarrow> pyval \<Rightarrow> state \<Rightarrow> error + (string \<times> state)" where
  "unparse_IsSet rec node s =
     bindE (getattr node ''nodes'') (\<lambda>nodes.
     bindE (py_len nodes) (\<lambda>n.
       if n = 1
       then bindE (py_index nodes 0) (\<lambda>x.
            bindE (rec x True 0 s) (\<lambda>(t, s1). Inr (''('' @ t @ '' is defined)'', s1)))
       else bindE (each_node rec True nodes s) (\<lambda>(ts, s1).
              Inr (''('' @ join '' and '' (map (\<lambda>t. ''('' @ t @ '' is defined)'') ts) @ '')'', s1))))"

definition unparse_Empty :: "unparser \<Rightarrow> pyval \<Rightarrow> state \<Rightarrow> error + (string \<times> state)" where
  "unparse_Empty rec node s =
     bindE (getattr node ''expr'') (\<lambda>e.
     bindE (rec e True 0 s) (\<lambda>(t, s1). Inr (''(not '' @ t @ '')'', s1)))"

definition unparse_Silence :: "unparser \<Rightarrow> pyval \<Rightarrow> state \<Rightarrow> error + (string \<times> state)" where
  "unparse_Silence rec node s = bindE (getattr node ''expr'') (\<lambda>e. rec e True 0 s)"

definition unparse_Cast :: "unparser \<Rightarrow> pyval \<Rightarrow> state \<Rightarrow> error + (string \<times> state)" where
  "unparse_Cast rec node s =
     bindE (getattr node ''type'') (\<lambda>ty.
     bindE (if ty = PStr ''int'' \<or> ty = PStr ''float'' \<or> ty = PStr ''string''
            then bindE (py_str ty) (\<lambda>t. Inr (''|'' @ t))
            else Inr []) (\<lambda>filt.
     bindE (getattr node ''expr'') (\<lambda>e.
     bindE (rec e True 0 s) (\<lambda>(t, s1). Inr (t @ filt, s1)))))"

definition unparse_elseif :: "unparser \<Rightarrow> nat \<Rightarrow> pyval \<Rightarrow> state \<Rightarrow> error + (string \<times> state)" where
  "unparse_elseif rec indent elseif s =
     bindE (getattr elseif ''expr'') (\<lambda>c.
     bindE (rec c True 0 s) (\<lambda>(tc, s1).
     bindE (getattr elseif ''node'') (\<lambda>b.
     bindE (rec b False (indent + 1) s1) (\<lambda>(tb, s2).
       Inr (NL @ ''{% elif '' @ tc @ '' -%}'' @ NL @ str_times indent_with (indent + 1) @ tb,
            s2)))))"

definition unparse_If :: "unparser \<Rightarrow> pyval \<Rightarrow> nat \<Rightarrow> state \<Rightarrow> error + (string \<times> state)" where
  "unparse_If rec node indent s =
     bindE (getattr node ''node'') (\<lambda>n.
     bindE (rec n False 0 s) (\<lambda>(body, s1).
     bindE (getattr node ''elseifs'') (\<lambda>v.
     bindE (py_iter v) (\<lambda>elseifs.
     bindE (mapS (\<lambda>elseif. unparse_elseif rec indent elseif) elseifs s1) (\<lambda>(elifs, s2).
     bindE (getattr node ''else_'') (\<lambda>els_node.
     bindE (if truthy els_node
            then bindE (getattr els_node ''node'') (\<lambda>en.
                 bindE (rec en False (indent + 1) s2) (\<lambda>(te, s3).
                   Inr (NL @ ''{% else -%}'' @ NL @ te, s3)))
            else Inr ([], s2)) (\<lambda>(els, s3).
     bindE (getattr node ''expr'') (\<lambda>e.
     bindE (rec e True 0 s3) (\<lambda>(tc, s4).
       Inr (''{% if '' @ tc @ '' -%}'' @ NL @ str_times indent_with (indent + 1)
              @ body @ concat elifs @ els @ NL @ ''{% endif -%}'', s4))))))))))"

definition unparse_While :: "unparser \<Rightarrow> pyval \<Rightarrow> state \<Rightarrow> error + (string \<times> state)" where
  "unparse_While rec node s =
     bindE (global_name ''Foreach'') (\<lambda>Foreach.
     bindE (getattr node ''expr'') (\<lambda>expr.
     bindE (global_name ''ForeachVariable'') (\<lambda>ForeachVariable.
     bindE (Node_init ForeachVariable
              [PStr (''$loop_var_'' @ str_int (loop_var_index s)), PBool False] None) (\<lambda>valvar.
     bindE (getattr node ''node'') (\<lambda>body.
     bindE (Node_init Foreach [expr, PNone, valvar, body] None) (\<lambda>dummy.
       rec dummy False 0 (State (called_functions s) (loop_var_index s + 1))))))))"

text \<open>
  Lines 177 to 243. The names \<^verbatim>\<open>Foreach\<close>, \<^verbatim>\<open>ForeachVariable\<close> and \<^verbatim>\<open>StaticMethodCall\<close> that
  these lines and the \<^verbatim>\<open>While\<close> branch use are looked up like every other class name.
\<close>

definition unparse_Foreach :: "unparser \<Rightarrow> pyval \<Rightarrow> state \<Rightarrow> error + (string \<times> state)" where
  "unparse_Foreach rec node s =
     bindE (getattr node ''valvar'') (\<lambda>valvar.
     bindE (getattr valvar ''name'') (\<lambda>name0.
     bindE (isinstance name0 ''Variable'') (\<lambda>is_var.
     bindE (if is_var then getattr name0 ''name'' else Inr name0) (\<lambda>name.
     bindE (slice_from 1 name) (\<lambda>var0.
     bindE (getattr node ''keyvar'') (\<lambda>keyvar.
     bindE (if truthy keyvar
            then bindE (getattr keyvar ''name'') (\<lambda>kname.
                 bindE (slice_from 1 kname) (\<lambda>k.
                 bindE (py_str k) (\<lambda>tk.
                 bindE (py_str var0) (\<lambda>tv. Inr (PStr (tk @ '', '' @ tv))))))
            else Inr var0) (\<lambda>var.
     bindE (py_str var) (\<lambda>tvar.
     bindE (getattr node ''expr'') (\<lambda>e.
     bindE (rec e True 0 s) (\<lambda>(te, s1).
     bindE (getattr node ''node'') (\<lambda>body.
     bindE (rec body False 0 s1) (\<lambda>(tb, s2).
       Inr (''{% for '' @ tvar @ '' in '' @ te @ '' -%}'' @ tb @ ''{% endfor -%}'', s2)))))))))))))"

definition unparse_Function :: "unparser \<Rightarrow> pyval \<Rightarrow> state \<Rightarrow> error + (string \<times> state)" where
  "unparse_Function rec node s =
     bindE (getattr node ''name'') (\<lambda>name.
     bindE (getattr node ''params'') (\<lambda>ps.
     bindE (py_iter ps) (\<lambda>params.
     bindE (mapE (\<lambda>param. bindE (getattr param ''name'') (\<lambda>pn. slice_from 1 pn)) params) (\<lambda>pnames.
     bindE (str_join '', '' pnames) (\<lambda>tparams.
     bindE (getattr node ''nodes'') (\<lambda>nodes.
     bindE (each_node rec False nodes s) (\<lambda>(ts, s1).
     bindE (py_str name) (\<lambda>tname.
       Inr (''{% macro '' @ tname @ ''('' @ tparams @ '') -%}'' @ NL @ ''    ''
              @ join (NL @ ''    '') ts @ NL @ ''{%- endmacro -%}'' @ NL @ NL, s1)))))))))"

definition unparse_Return :: "pyval \<Rightarrow> state \<Rightarrow> error + (string \<times> state)" where
  "unparse_Return node s = bindE (py_str node) (\<lambda>t. Inr (jcomment t, s))"

text \<open>\<^verbatim>\<open>[unparse_node(param.node, True) for param in node.params]\<close>\<close>

definition unparse_params :: "unparser \<Rightarrow> pyval \<Rightarrow> state \<Rightarrow> error + (string list \<times> state)" where
  "unparse_params rec node s =
     bindE (getattr node ''params'') (\<lambda>ps.
     bindE (py_iter ps) (\<lambda>params.
       mapS (\<lambda>param u. bindE (getattr param ''node'') (\<lambda>a. rec a True 0 u)) params s))"

text \<open>\<^verbatim>\<open>body if is_expr else jexpr(body)\<close>\<close>

definition call_result :: "bool \<Rightarrow> string \<Rightarrow> string" where
  "call_result is_expr body = (if is_expr then body else jexpr body 0 False True)"

text \<open>
  Lines 207 to 221. The write to the standard error stream of line 216 is left out: it
  is not part of either output.
\<close>

definition unparse_FunctionCall :: "unparser \<Rightarrow> pyval \<Rightarrow> bool \<Rightarrow> state \<Rightarrow> error + (string \<times> state)" where
  "unparse_FunctionCall rec node is_expr s =
     bindE (getattr node ''name'') (\<lambda>name.
       if \<not> hashable name then Inl TypeError
       else
         bindE (unparse_params rec node
                  (State (record_call name node (called_functions s)) (loop_var_index s)))
           (\<lambda>(params, s1).
         bindE (py_endswith name ''printf'') (\<lambda>printf.
         bindE (if printf
                then (case params of
                        [] \<Rightarrow> Inl IndexError
                      | p0 # rest \<Rightarrow> Inr (p0 @ '' % ('' @ join '', '' rest @ '',)''))
                else bindE (isinstance node ''StaticMethodCall'') (\<lambda>is_static.
                     bindE (py_str name) (\<lambda>tname.
                       Inr (tname @ ''('' @ join '', '' params @ '')'')))) (\<lambda>body.
           Inr (call_result is_expr body, s1)))))"

definition unparse_MethodCall :: "unparser \<Rightarrow> pyval \<Rightarrow> bool \<Rightarrow> state \<Rightarrow> error + (string \<times> state)" where
  "unparse_MethodCall rec node is_expr s =
     bindE (unparse_params rec node s) (\<lambda>(params, s1).
     bindE (getattr node ''node'') (\<lambda>receiver.
     bindE (rec receiver True 0 s1) (\<lambda>(tr, s2).
     bindE (getattr node ''name'') (\<lambda>name.
     bindE (py_str name) (\<lambda>tname.
       Inr (call_result is_expr (tr @ ''.'' @ tname @ ''('' @ join '', '' params @ '')''), s2))))))"

definition unparse_StaticMethodCall :: "unparser \<Rightarrow> pyval \<Rightarrow> bool \<Rightarrow> state \<Rightarrow> error + (string \<times> state)" where
  "unparse_StaticMethodCall rec node is_expr s =
     bindE (unparse_params rec node s) (\<lambda>(params, s1).
     bindE (getattr node ''class_'') (\<lambda>cls.
     bindE (getattr node ''name'') (\<lambda>name.
     bindE (py_str cls) (\<lambda>tcls.
     bindE (py_str name) (\<lambda>tname.
       Inr (call_result is_expr (tcls @ ''.'' @ tname @ ''('' @ join '', '' params @ '')''), s1))))))"

definition unparse_New :: "unparser \<Rightarrow> pyval \<Rightarrow> bool \<Rightarrow> state \<Rightarrow> error + (string \<times> state)" where
  "unparse_New rec node is_expr s =
     bindE (global_name ''FunctionCall'') (\<lambda>FunctionCall.
     bindE (getattr node ''name'') (\<lambda>name.
     bindE (getattr node ''params'') (\<lambda>params.
     bindE (getattr node ''lineno'') (\<lambda>lineno.
     bindE (Node_init FunctionCall [name, params] (Some lineno)) (\<lambda>dummy.
       rec dummy is_expr 0 s)))))"

text \<open>Lines 240 to 243, the marker for a node that no test above has taken.\<close>

definition unparse_default :: "pyval \<Rightarrow> bool \<Rightarrow> state \<Rightarrow> error + (string \<times> state)" where
  "unparse_default node is_expr s =
     bindE (py_str node) (\<lambda>t.
       Inr (if is_expr then ''XXX('' @ repr_str t @ '')'' else ''{# XXX '' @ t @ '' #}'', s))"

text \<open>
  The chain of tests of \<^verbatim>\<open>unparse_node\<close>, in two parts: lines 177 to 243, and before
  them lines 67 to 175. A test evaluates the class name it mentions, and the first test
  that succeeds decides the result.
\<close>

definition dispatch_tail :: "unparser \<Rightarrow> pyval \<Rightarrow> bool \<Rightarrow> state \<Rightarrow> error + (string \<times> state)" where
  "dispatch_tail rec node is_expr s =
     bindE (isinstance node ''Foreach'') (\<lambda>b. if b then unparse_Foreach rec node s else
     bindE (isinstance node ''Function'') (\<lambda>b. if b then unparse_Function rec node s else
     bindE (isinstance node ''Return'') (\<lambda>b. if b then unparse_Return node s else
     bindE (isinstance node ''FunctionCall'') (\<lambda>b.
       if b then unparse_FunctionCall rec node is_expr s else
     bindE (isinstance node ''MethodCall'') (\<lambda>b.
       if b then unparse_MethodCall rec node is_expr s else
     bindE (isinstance node ''StaticMethodCall'') (\<lambda>b.
       if b then unparse_StaticMethodCall rec node is_expr s else
     bindE (isinstance node ''New'') (\<lambda>b. if b then unparse_New rec node is_expr s else
     unparse_default node is_expr s)))))))"

definition dispatch :: "args \<Rightarrow> unparser \<Rightarrow> pyval \<Rightarrow> bool \<Rightarrow> nat \<Rightarrow> state \<Rightarrow> error + (string \<times> state)" where
  "dispatch cfg rec node is_expr indent s =
     (if is_scalar node then bindE (py_repr node) (\<lambda>t. Inr (t, s)) else
     bindE (isinstance node ''InlineHTML'') (\<lambda>b. if b then unparse_InlineHTML node s else
     bindE (isinstance node ''Constant'') (\<lambda>b. if b then unparse_Constant node s else
     bindE (isinstance node ''Variable'') (\<lambda>b. if b then unparse_Variable node s else
     bindE (isinstance node ''Echo'') (\<lambda>b. if b then unparse_Echo rec node s else
     bindE (isinstance node ''Include'') (\<lambda>b1.
     bindE (isinstance node ''Require'') (\<lambda>b2.
       if b1 \<or> b2 then unparse_Include rec node s else
     bindE (isinstance node ''Block'') (\<lambda>b. if b then unparse_Block rec node s else
     bindE (isinstance node ''ArrayOffset'') (\<lambda>b. if b then unparse_ArrayOffset rec node s else
     bindE (isinstance node ''ObjectProperty'') (\<lambda>b.
       if b then unparse_ObjectProperty rec node s else
     bindE (isinstance node ''Array'') (\<lambda>b. if b then unparse_Array rec node s else
     bindE (isinstance node ''ArrayElement'') (\<lambda>b.
       if b then unparse_ArrayElement rec node s else
     bindE (isinstance node ''Assignment'') (\<lambda>b.
       if b then unparse_Assignment cfg rec node s else
     bindE (isinstance node ''AssignOp'') (\<lambda>b.
     bindE (if b then AssignOp_concat node else Inr False) (\<lambda>concat_op.
       if concat_op then unparse_AssignOp rec node s else
     bindE (isinstance node ''UnaryOp'') (\<lambda>b. if b then unparse_UnaryOp rec node s else
     bindE (isinstance node ''BinaryOp'') (\<lambda>b. if b then unparse_BinaryOp rec node s else
     bindE (isinstance node ''TernaryOp'') (\<lambda>b. if b then unparse_TernaryOp rec node s else
     bindE (isinstance node ''IsSet'') (\<lambda>b. if b then unparse_IsSet rec node s else
     bindE (isinstance node ''Empty'') (\<lambda>b. if b then unparse_Empty rec node s else
     bindE (isinstance node ''Silence'') (\<lambda>b. if b then unparse_Silence rec node s else
     bindE (isinstance node ''Cast'') (\<lambda>b. if b then unparse_Cast rec node s else
     bindE (isinstance node ''If'') (\<lambda>b. if b then unparse_If rec node indent s else
     bindE (isinstance node ''While'') (\<lambda>b. if b then unparse_While rec node s else
     dispatch_tail rec node is_expr s))))))))))))))))))))))))"

text \<open>
  The recursive calls of the chain are on parts of the node: the equations below hold
  for any two functions that agree on the values smaller than the node, which is what
  the definition of \<open>unparse_node\<close> by recursion on the size of the node needs.
\<close>

lemma mapS_cong [fundef_cong]:
  "xs = ys \<Longrightarrow> s = t \<Longrightarrow> (\<And>x u. x \<in> set ys \<Longrightarrow> f x u = g x u) \<Longrightarrow> mapS f xs s = mapS g ys t"
proof (induction ys arbitrary: xs s t)
  case Nil
  then show ?case by simp
next
  case (Cons y ys)
  have "mapS f ys u = mapS g ys u" for u
    by (rule Cons.IH) (auto intro: Cons.prems)
  with Cons.prems show ?case by (auto cong: bindE_cong)
qed

lemma py_iter_size: "py_iter v = Inr xs \<Longrightarrow> \<forall>x\<in>set xs. size x \<le> size v"
  by (cases v) (auto dest: elem_size)

lemma py_index_size: "py_index v i = Inr x \<Longrightarrow> size x \<le> size v"
  by (cases v) (auto split: if_splits dest!: nth_mem [THEN elem_size])

lemma global_Foreach: "global_name ''Foreach'' = Inl NameError"
  by (simp add: global_name_def phpast_module_def)

lemma isinstance_Foreach: "isinstance v ''Foreach'' = Inl NameError"
  by (simp add: isinstance_def global_Foreach bindE_def)

lemma dispatch_tail_NameError: "dispatch_tail rec node is_expr s = Inl NameError"
  by (simp add: dispatch_tail_def isinstance_Foreach bindE_def)

lemma unparse_While_NameError: "unparse_While rec node s = Inl NameError"
  by (simp add: unparse_While_def global_Foreach bindE_def)

lemma each_node_cong:
  assumes "\<And>x a b c. size x \<le> size v \<Longrightarrow> f x a b c = g x a b c"
  shows "each_node f e v s = each_node g e v s"
  unfolding each_node_def
  by (auto intro!: bindE_cong mapS_cong assms dest!: py_iter_size)

lemma unparse_elseif_cong:
  assumes "\<And>x a b c. size x < size elseif \<Longrightarrow> f x a b c = g x a b c"
  shows "unparse_elseif f i elseif s = unparse_elseif g i elseif s"
  unfolding unparse_elseif_def
  by (auto intro!: bindE_cong assms dest: getattr_size)

lemma branch_congs:
  assumes "\<And>x a b c. size x < size node \<Longrightarrow> f x a b c = g x a b c"
  shows "unparse_Echo f node s = unparse_Echo g node s"
    and "unparse_Include f node s = unparse_Include g node s"
    and "unparse_Block f node s = unparse_Block g node s"
    and "unparse_ArrayOffset f node s = unparse_ArrayOffset g node s"
    and "unparse_ObjectProperty f node s = unparse_ObjectProperty g node s"
    and "unparse_Array f node s = unparse_Array g node s"
    and "unparse_ArrayElement f node s = unparse_ArrayElement g node s"
    and "unparse_Assignment cfg f node s = unparse_Assignment cfg g node s"
    and "unparse_AssignOp f node s = unparse_AssignOp g node s"
    and "unparse_UnaryOp f node s = unparse_UnaryOp g node s"
    and "unparse_BinaryOp f node s = unparse_BinaryOp g node s"
    and "unparse_TernaryOp f node s = unparse_TernaryOp g node s"
    and "unparse_IsSet f node s = unparse_IsSet g node s"
    and "unparse_Empty f node s = unparse_Empty g node s"
    and "unparse_Silence f node s = unparse_Silence g node s"
    and "unparse_Cast f node s = unparse_Cast g node s"
    and "unparse_If f node indent s = unparse_If g node indent s"
  unfolding unparse_Echo_def unparse_Include_def unparse_Block_def unparse_ArrayOffset_def
    unparse_ObjectProperty_def unparse_Array_def unparse_ArrayElement_def
    unparse_Assignment_def unparse_AssignOp_def unparse_UnaryOp_def unparse_BinaryOp_def
    unparse_TernaryOp_def unparse_IsSet_def unparse_Empty_def unparse_Silence_def
    unparse_Cast_def unparse_If_def
  by (auto intro!: bindE_cong each_node_cong mapS_cong unparse_elseif_cong assms
        dest!: getattr_size py_iter_size py_index_size simp del: getattr.simps)

lemma dispatch_cong [fundef_cong]:
  assumes "node = node'" "is_expr = is_expr'" "indent = indent'" "s = s'"
    and "\<And>x a b c. size x < size node' \<Longrightarrow> f x a b c = g x a b c"
  shows "dispatch cfg f node is_expr indent s = dispatch cfg g node' is_expr' indent' s'"
proof -
  note agree = branch_congs [where node = node' and f = f and g = g, OF assms(5)]
  show ?thesis
    unfolding dispatch_def assms(1-4) dispatch_tail_NameError unparse_While_NameError
    by (simp only: agree cong: if_cong)
qed

text \<open>
  \<^verbatim>\<open>unparse_node(node, is_expr, indent)\<close>, lines 64 to 243, and \<^verbatim>\<open>unparse(nodes, join_with)\<close>,
  lines 61 and 62.
\<close>

function unparse_node :: "args \<Rightarrow> pyval \<Rightarrow> bool \<Rightarrow> nat \<Rightarrow> state \<Rightarrow> error + (string \<times> state)" where
  "unparse_node cfg node is_expr indent s =
     dispatch cfg (unparse_node cfg) node is_expr indent s"
  by pat_completeness auto
termination
  by (relation "measure (\<lambda>(cfg, node, is_expr, indent, s). size node)") auto

declare unparse_node.simps [simp del]

definition unparse :: "args \<Rightarrow> pyval list \<Rightarrow> string \<Rightarrow> state \<Rightarrow> error + (string \<times> state)" where
  "unparse cfg nodes join_with s =
     bindE (mapS (\<lambda>x. unparse_node cfg x False 0) nodes s) (\<lambda>(ts, s1).
       Inr (join join_with ts, s1))"

section \<open>The driver (tools/php2jinja.py, lines 253 to 268)\<close>

text \<open>
  The stub for one entry of the registry, lines 258 to 264. The result is the text
  written to the stubs file, and the state after it or the exception that ended it.
  \<^verbatim>\<open>sorted\<close> is stable, and evaluates its key on every node before it sorts. The order
  in which \<^verbatim>\<open>list(set(...))\<close> lists the distinct example texts is not determined by the
  program text: it is the parameter \<open>set_order\<close>.
\<close>

definition arity :: "pyval \<Rightarrow> error + nat" where
  "arity n = bindE (getattr n ''params'') (\<lambda>params. py_len params)"

definition sorted_by_arity :: "pyval list \<Rightarrow> error + pyval list" where
  "sorted_by_arity nodes =
     bindE (mapE arity nodes) (\<lambda>ks. Inr (map snd (sort_key fst (zip ks nodes))))"

definition stub_def :: "string \<Rightarrow> nat \<Rightarrow> string" where
  "stub_def tname n =
     ''def '' @ tname @ ''('' @ join '', '' (map (\<lambda>i. ''arg'' @ str_nat i) [0..<n]) @ ''):'' @ NL"

definition stub_entry ::
  "(string list \<Rightarrow> string list) \<Rightarrow> args \<Rightarrow> pyval \<Rightarrow> pyval list \<Rightarrow> state \<Rightarrow> string \<times> (error + state)" where
  "stub_entry set_order cfg name nodes s =
     (case sorted_by_arity nodes of
        Inl e \<Rightarrow> ([], Inl e)
      | Inr sorted_nodes \<Rightarrow>
          (if sorted_nodes = [] then ([], Inl IndexError)
           else case bindE (py_str name) (\<lambda>tname.
                     bindE (arity (last sorted_nodes)) (\<lambda>n. Inr (stub_def tname n, n))) of
               Inl e \<Rightarrow> ([], Inl e)
             | Inr (header, n) \<Rightarrow>
                 (if n > 0
                  then (case mapS (\<lambda>x. unparse_node cfg x True 0) sorted_nodes s of
                          Inl e \<Rightarrow> (header, Inl e)
                        | Inr (examples, s1) \<Rightarrow>
                            (header
                               @ concat (map (\<lambda>example. ''    # '' @ example @ NL)
                                           (take 3 (set_order examples)))
                               @ ''    pass'' @ NL @ NL, Inr s1))
                  else (header @ ''    pass'' @ NL @ NL, Inr s))))"

text \<open>
  The loop over \<^verbatim>\<open>called_functions.items()\<close>, line 257. The keys are visited in insertion
  order; the list of nodes of a key is read when the key is visited; and the iteration
  raises RuntimeError when it finds that the dictionary has changed its size.
\<close>

fun stub_loop ::
  "(string list \<Rightarrow> string list) \<Rightarrow> args \<Rightarrow> pyval list \<Rightarrow> nat \<Rightarrow> state \<Rightarrow> string \<times> (error + state)" where
  "stub_loop set_order cfg [] n s =
     (if length (called_functions s) \<noteq> n then ([], Inl RuntimeError) else ([], Inr s))"
| "stub_loop set_order cfg (k # ks) n s =
     (if length (called_functions s) \<noteq> n then ([], Inl RuntimeError)
      else case stub_entry set_order cfg k
                  (case map_of (called_functions s) k of None \<Rightarrow> [] | Some ns \<Rightarrow> ns) s of
          (w, Inl e) \<Rightarrow> (w, Inl e)
        | (w, Inr s1) \<Rightarrow>
            (case stub_loop set_order cfg ks n s1 of (w2, r) \<Rightarrow> (w @ w2, r)))"

text \<open>
  What a run leaves behind: the text of the stubs file when it has been opened, the
  template text when it has been written, and the exception when one has ended the run.
\<close>

datatype outcome =
  Outcome (stubs_file: "string option") (template: "string option") (raised: "error option")

text \<open>
  The run from line 253 on, for the list of nodes that the parser has returned. The
  registry and the counter start as the module initialises them, lines 26 and 28.
\<close>

definition initial_state :: state where
  "initial_state = State [] 1"

definition write_template :: "args \<Rightarrow> string \<Rightarrow> string option" where
  "write_template cfg jinja = (if dry_run cfg then None else Some (collapse jinja))"

definition run :: "(string list \<Rightarrow> string list) \<Rightarrow> args \<Rightarrow> pyval list \<Rightarrow> outcome" where
  "run set_order cfg ast =
     (case unparse cfg ast NL initial_state of
        Inl e \<Rightarrow> Outcome None None (Some e)
      | Inr (jinja, s) \<Rightarrow>
          (if (case stubs cfg of None \<Rightarrow> False | Some path \<Rightarrow> path \<noteq> [])
                \<and> called_functions s \<noteq> []
           then (case stub_loop set_order cfg (map fst (called_functions s))
                        (length (called_functions s)) s of
                   (w, Inl e) \<Rightarrow>
                     Outcome (Some (''# stubs for observed function calls'' @ NL @ w)) None (Some e)
                 | (w, Inr s1) \<Rightarrow>
                     Outcome (Some (''# stubs for observed function calls'' @ NL @ w))
                       (write_template cfg jinja) None)
           else Outcome None (write_template cfg jinja) None))"

section \<open>Properties of the AST model\<close>

lemma map_of_setattr: "map_of (setattr attrs f v) = (map_of attrs)(f \<mapsto> v)"
  by (simp add: setattr_def update_conv')

lemma init_fold_other:
  "k \<notin> set fs \<Longrightarrow>
   map_of (foldl (\<lambda>attrs (i, field). setattr attrs field (args ! i)) a0 (enumerate n fs)) k
     = map_of a0 k"
  by (induction fs arbitrary: a0 n) (auto simp: map_of_setattr)

lemma init_fold_field:
  "distinct fs \<Longrightarrow> i < length fs \<Longrightarrow>
   map_of (foldl (\<lambda>attrs (i, field). setattr attrs field (args ! i)) a0 (enumerate n fs)) (fs ! i)
     = Some (args ! (n + i))"
proof (induction fs arbitrary: a0 n i)
  case Nil
  then show ?case by simp
next
  case (Cons f fs)
  show ?case
  proof (cases i)
    case 0
    with Cons.prems show ?thesis
      by (simp add: init_fold_other map_of_setattr)
  next
    case (Suc j)
    with Cons.prems Cons.IH [of j "setattr a0 f (args ! n)" "Suc n"] show ?thesis
      by simp
  qed
qed

lemma getattr_init:
  "distinct (fields c) \<Longrightarrow> i < length (fields c) \<Longrightarrow>
   getattr (Obj c (init_attrs c args lineno)) (fields c ! i) = Inr (args ! i)"
  using init_fold_field [of "fields c" i args _ 0] by (simp add: init_attrs_def)

lemma phpast_fields_distinct: "(name, c) \<in> set phpast_module \<Longrightarrow> distinct (fields c)"
  unfolding phpast_module_def by (auto simp: phpast_defs phpast_node_def)

section \<open>Properties of the blank-line clean-up\<close>

lemma collapse_Nil: "collapse [] = []"
  by (simp add: collapse_def)

lemma collapse_single: "collapse [a] = [a]"
  by (simp add: collapse_def)

lemma collapse_Cons2:
  "collapse (a # b # s) =
     (if a = CHR 0x0A \<and> b = CHR 0x0A then CHR 0x0A # collapse s else a # collapse (b # s))"
  by (subst collapse_def, subst replace.simps) (auto simp: collapse_def)

lemmas collapse_simps = collapse_Nil collapse_single collapse_Cons2

lemma collapse_no_two: "\<not> two_newlines s \<Longrightarrow> collapse s = s"
  by (induction s rule: two_newlines.induct) (auto simp: collapse_simps)

lemma collapse_hd: "s \<noteq> [] \<Longrightarrow> collapse s \<noteq> [] \<and> hd (collapse s) = hd s"
  by (cases s rule: two_newlines.cases) (auto simp: collapse_simps)

lemma two_newlines_Cons:
  "two_newlines (a # s) = ((a = CHR 0x0A \<and> s \<noteq> [] \<and> hd s = CHR 0x0A) \<or> two_newlines s)"
  by (cases s) auto

lemma three_newlines_Cons: "three_newlines s \<Longrightarrow> three_newlines (a # s)"
  by (cases s rule: three_newlines.cases) auto

lemma collapse_no_three: "\<not> three_newlines s \<Longrightarrow> \<not> two_newlines (collapse s)"
proof (induction s rule: length_induct)
  case (1 s)
  note IH = "1.IH" and no3 = "1.prems"
  show ?case
  proof (cases s rule: two_newlines.cases)
    case 1
    then show ?thesis by (simp add: collapse_simps)
  next
    case (2 a)
    then show ?thesis by (simp add: collapse_simps)
  next
    case (3 a b t)
    show ?thesis
    proof (cases "a = CHR 0x0A \<and> b = CHR 0x0A")
      case True
      with 3 no3 have t: "\<not> three_newlines t" "t = [] \<or> hd t \<noteq> CHR 0x0A"
        by (auto dest: three_newlines_Cons) (cases t, auto)
      from IH [rule_format, of t] 3 t(1) have "\<not> two_newlines (collapse t)" by simp
      moreover from t(2) collapse_hd [of t]
      have "collapse t = [] \<or> hd (collapse t) \<noteq> CHR 0x0A"
        by (cases "t = []") (auto simp: collapse_Nil)
      ultimately show ?thesis using True 3
        by (auto simp: collapse_Cons2 two_newlines_Cons simp del: two_newlines.simps)
    next
      case False
      from 3 no3 have "\<not> three_newlines (b # t)"
        by (auto dest: three_newlines_Cons)
      with IH [rule_format, of "b # t"] 3 have "\<not> two_newlines (collapse (b # t))"
        by simp
      moreover from collapse_hd [of "b # t"] have "hd (collapse (b # t)) = b" by simp
      ultimately show ?thesis using False 3
        by (auto simp: collapse_Cons2 two_newlines_Cons simp del: two_newlines.simps)
    qed
  qed
qed

lemma collapse_append:
  "pre = [] \<or> last pre \<noteq> CHR 0x0A \<Longrightarrow> collapse (pre @ s) = collapse pre @ collapse s"
proof (induction pre rule: length_induct)
  case (1 pre)
  note IH = "1.IH" and ends = "1.prems"
  show ?case
  proof (cases pre rule: two_newlines.cases)
    case 1
    then show ?thesis by (simp add: collapse_simps)
  next
    case (2 a)
    with ends show ?thesis by (cases s) (auto simp: collapse_simps)
  next
    case (3 a b p)
    show ?thesis
    proof (cases "a = CHR 0x0A \<and> b = CHR 0x0A")
      case True
      with 3 ends have "p = [] \<or> last p \<noteq> CHR 0x0A"
        by (auto split: if_splits)
      with IH [rule_format, of p] 3 have "collapse (p @ s) = collapse p @ collapse s"
        by simp
      with True 3 show ?thesis by (simp add: collapse_Cons2)
    next
      case False
      from 3 ends have "b # p = [] \<or> last (b # p) \<noteq> CHR 0x0A"
        by (auto split: if_splits)
      with IH [rule_format, of "b # p"] 3
      have "collapse ((b # p) @ s) = collapse (b # p) @ collapse s"
        by simp
      with False 3 show ?thesis by (auto simp: collapse_Cons2 [of a b])
    qed
  qed
qed


section \<open>Evaluating the translator\<close>

lemma bindE_simps: "bindE (Inl e) f = Inl e" "bindE (Inr x) f = f x"
  by (simp_all add: bindE_def)

lemma bindE_weak_cong: "m = m' \<Longrightarrow> bindE m f = bindE m' f"
  by simp

lemma bindE_InrE:
  assumes "bindE m f = Inr y"
  obtains x where "m = Inr x" and "f x = Inr y"
  using assms by (cases m) (auto simp: bindE_def)

text \<open>The class names that the translator mentions, looked up in its module.\<close>

lemma global_names:
  "global_name ''InlineHTML'' = Inr InlineHTML"
  "global_name ''Constant'' = Inr Constant"
  "global_name ''Variable'' = Inr Variable"
  "global_name ''Echo'' = Inr Echo"
  "global_name ''Include'' = Inr Include"
  "global_name ''Require'' = Inr Require"
  "global_name ''Block'' = Inr Block"
  "global_name ''ArrayOffset'' = Inr ArrayOffset"
  "global_name ''ObjectProperty'' = Inr ObjectProperty"
  "global_name ''Array'' = Inr Array"
  "global_name ''ArrayElement'' = Inr ArrayElement"
  "global_name ''Assignment'' = Inr Assignment"
  "global_name ''AssignOp'' = Inr AssignOp"
  "global_name ''UnaryOp'' = Inr UnaryOp"
  "global_name ''BinaryOp'' = Inr BinaryOp"
  "global_name ''TernaryOp'' = Inr TernaryOp"
  "global_name ''IsSet'' = Inr IsSet"
  "global_name ''Empty'' = Inr Empty"
  "global_name ''Silence'' = Inr Silence"
  "global_name ''Cast'' = Inr Cast"
  "global_name ''If'' = Inr If"
  "global_name ''While'' = Inr While"
  "global_name ''Function'' = Inr Function"
  "global_name ''Return'' = Inr Return"
  "global_name ''FunctionCall'' = Inr FunctionCall"
  "global_name ''MethodCall'' = Inr MethodCall"
  "global_name ''New'' = Inr New"
  "global_name ''Foreach'' = Inl NameError"
  "global_name ''ForeachVariable'' = Inl NameError"
  "global_name ''StaticMethodCall'' = Inl NameError"
  by (simp_all add: global_name_def phpast_module_def)

lemmas branch_defs =
  unparse_InlineHTML_def unparse_Constant_def unparse_Variable_def unparse_Echo_def
  unparse_Include_def unparse_Block_def unparse_ArrayOffset_def unparse_ObjectProperty_def
  unparse_Array_def unparse_ArrayElement_def unparse_Assignment_def AssignOp_concat_def
  unparse_AssignOp_def unparse_UnaryOp_def unparse_BinaryOp_def unparse_TernaryOp_def
  unparse_IsSet_def unparse_Empty_def unparse_Silence_def unparse_Cast_def unparse_elseif_def
  unparse_If_def unparse_While_def each_node_def

lemmas node_defs = mk_def Node_init_def init_attrs_def setattr_def phpast_defs phpast_node_def

lemmas chain_defs =
  unparse_node.simps dispatch_def dispatch_tail_def isinstance_def global_names bindE_simps

lemmas eval_simps = chain_defs branch_defs node_defs py_str_def jexpr_def jstatement_def
  str_times_def indent_with_def

lemma Node_init_Inr:
  "Node_init c args l = Inr n \<Longrightarrow> n = Obj c (init_attrs c args l)"
  by (simp add: Node_init_def split: if_splits)

section \<open>Claims\<close>

text \<open>
  C8. Constructing a node of any class of phpast.py with a number of positional
  arguments different from the length of the class's field list fails with the
  assertion error of line 11; with exactly that many arguments the construction
  succeeds, and every declared field is an attribute of the instance, bound to the
  positional argument at the field's position.
\<close>

theorem Node_init_arity:
  assumes "(name, c) \<in> set phpast_module"
  shows "(length args \<noteq> length (fields c) \<longrightarrow> Node_init c args lineno = Inl AssertionError) \<and>
         (length args = length (fields c) \<longrightarrow>
            (\<exists>n. Node_init c args lineno = Inr n \<and>
                 (\<forall>i < length (fields c). getattr n (fields c ! i) = Inr (args ! i))))"
  using phpast_fields_distinct [OF assms]
  by (auto simp: Node_init_def getattr_init simp del: getattr.simps)

theorem Node_init_arity_witness:
  "(''Assignment'', Assignment) \<in> set phpast_module \<and>
   Node_init Assignment [PStr ''$a'', PInt 1] None = Inl AssertionError \<and>
   (\<exists>n. Node_init Assignment [PStr ''$a'', PInt 1, PBool False] None = Inr n \<and>
        getattr n ''node'' = Inr (PStr ''$a'') \<and>
        getattr n ''expr'' = Inr (PInt 1) \<and>
        getattr n ''is_ref'' = Inr (PBool False))"
proof -
  have m: "(''Assignment'', Assignment) \<in> set phpast_module"
    by (simp add: phpast_module_def)
  have f: "fields Assignment = [''node'', ''expr'', ''is_ref'']"
    by (simp add: Assignment_def phpast_node_def)
  from Node_init_arity [OF m, of "[PStr ''$a'', PInt 1]" None]
  have a: "Node_init Assignment [PStr ''$a'', PInt 1] None = Inl AssertionError"
    by (simp add: f)
  from Node_init_arity [OF m, of "[PStr ''$a'', PInt 1, PBool False]" None]
  obtain n where n: "Node_init Assignment [PStr ''$a'', PInt 1, PBool False] None = Inr n"
    and g: "\<forall>i<3. getattr n (fields Assignment ! i) = Inr ([PStr ''$a'', PInt 1, PBool False] ! i)"
    by (auto simp: f)
  from g [rule_format, of 0] g [rule_format, of 1] g [rule_format, of 2]
  have "getattr n ''node'' = Inr (PStr ''$a'')" "getattr n ''expr'' = Inr (PInt 1)"
    "getattr n ''is_ref'' = Inr (PBool False)"
    by (simp_all add: f)
  with m a n show ?thesis by blast
qed

text \<open>
  C6, as the code has it. The clean-up replaces the occurrences of two newlines in a
  row, found from left to right without overlap, by one newline each: a pair of
  newlines after a text that does not end in a newline becomes one newline. A text
  without two newlines in a row is left as it is, so running the clean-up on such a
  text is a no-op; and on every text without three newlines in a row, running the
  clean-up twice gives what running it once gives.
\<close>

theorem collapse_twice:
  "(pre = [] \<or> last pre \<noteq> CHR 0x0A \<longrightarrow>
      collapse (pre @ [CHR 0x0A, CHR 0x0A] @ post) = collapse pre @ [CHR 0x0A] @ collapse post) \<and>
   (\<not> two_newlines s \<longrightarrow> collapse s = s) \<and>
   (\<not> three_newlines s \<longrightarrow> collapse (collapse s) = collapse s)"
  using collapse_append [of pre "[CHR 0x0A, CHR 0x0A] @ post"]
  by (auto simp: collapse_Cons2 collapse_no_two collapse_no_three)

theorem collapse_twice_witness:
  "collapse (''a'' @ [CHR 0x0A, CHR 0x0A] @ ''b'') = ''a'' @ [CHR 0x0A] @ ''b'' \<and>
   collapse (''a'' @ [CHR 0x0A] @ ''b'') = ''a'' @ [CHR 0x0A] @ ''b'' \<and>
   collapse (collapse (''a'' @ [CHR 0x0A, CHR 0x0A] @ ''b'')) = collapse (''a'' @ [CHR 0x0A, CHR 0x0A] @ ''b'')"
  using collapse_twice [of "''a''" "''b''" "''a'' @ [CHR 0x0A] @ ''b''"]
    collapse_twice [of "[]" "[]" "''a'' @ [CHR 0x0A, CHR 0x0A] @ ''b''"]
  by (simp add: collapse_simps)

text \<open>
  C6 as stated fails: on a text of three newlines the clean-up gives two newlines, and
  the clean-up of that gives one.
\<close>

theorem collapse_not_idempotent:
  "collapse (collapse [CHR 0x0A, CHR 0x0A, CHR 0x0A]) \<noteq> collapse [CHR 0x0A, CHR 0x0A, CHR 0x0A]"
  by (simp add: collapse_simps)

text \<open>
  C1 fails. The test of line 177 evaluates the name \<^verbatim>\<open>Foreach\<close>, which the module does not
  bind: a node that none of the tests of lines 67 to 171 takes reaches it, and the call
  raises NameError instead of returning a marker. So it is for a class declaration, an
  interface declaration, a switch, a case, a compound assignment other than the
  concatenation, and a break, in statement position and in expression position.
\<close>

theorem unsupported_kinds_raise:
  "unparse_node (Args False None False)
     (mk Class [PStr ''C'', PNone, PNone, PList [], PList []]) False 0 initial_state = Inl NameError \<and>
   unparse_node (Args False None False)
     (mk Interface [PStr ''I'', PNone, PList []]) False 0 initial_state = Inl NameError \<and>
   unparse_node (Args False None False)
     (mk Switch [mk Variable [PStr ''$x''], PList []]) False 0 initial_state = Inl NameError \<and>
   unparse_node (Args False None False)
     (mk Case [PInt 1, PList []]) False 0 initial_state = Inl NameError \<and>
   unparse_node (Args False None False)
     (mk AssignOp [PStr ''+='', mk Variable [PStr ''$a''], PInt 1]) False 0 initial_state = Inl NameError \<and>
   unparse_node (Args False None False)
     (mk AssignOp [PStr ''+='', mk Variable [PStr ''$a''], PInt 1]) True 0 initial_state = Inl NameError \<and>
   unparse_node (Args False None False)
     (mk Break [PNone]) False 0 initial_state = Inl NameError \<and>
   unparse_node (Args False None False)
     (mk Break [PNone]) True 0 initial_state = Inl NameError"
  by (simp add: eval_simps cong: bindE_weak_cong)

text \<open>
  C2, as the code has it. A variable is rendered as its name without the first
  character, and an echo as the concatenation of the renderings of its operands,
  followed by the filter \<^verbatim>\<open>safe\<close>, in an output tag that ends with the whitespace control
  \<^verbatim>\<open>-}}\<close>: \<^verbatim>\<open>jexpr\<close> is called with its default \<^verbatim>\<open>rstrip=True\<close>.
\<close>

theorem Echo_safe:
  "(Node_init Variable [PStr name] l1 = Inr v \<longrightarrow>
      unparse_node cfg v is_expr indent s = Inr (drop 1 name, s)) \<and>
   (Node_init Echo [PList xs] l2 = Inr n \<longrightarrow>
    mapS (\<lambda>x. unparse_node cfg x True 0) xs s = Inr (ts, s') \<longrightarrow>
      unparse_node cfg n is_expr indent s = Inr (''{{ '' @ concat ts @ '' | safe -}}'', s'))"
proof (intro conjI impI)
  assume "Node_init Variable [PStr name] l1 = Inr v"
  then have "v = Obj Variable (init_attrs Variable [PStr name] l1)"
    by (rule Node_init_Inr)
  then show "unparse_node cfg v is_expr indent s = Inr (drop 1 name, s)"
    by (simp add: eval_simps cong: bindE_weak_cong)
next
  assume "Node_init Echo [PList xs] l2 = Inr n"
    and m: "mapS (\<lambda>x. unparse_node cfg x True 0) xs s = Inr (ts, s')"
  then have "n = Obj Echo (init_attrs Echo [PList xs] l2)"
    by (simp add: Node_init_Inr)
  with m show "unparse_node cfg n is_expr indent s = Inr (''{{ '' @ concat ts @ '' | safe -}}'', s')"
    by (simp add: eval_simps cong: bindE_weak_cong)
qed

theorem Echo_safe_witness:
  "Node_init Variable [PStr ''$x''] None = Inr (mk Variable [PStr ''$x'']) \<and>
   Node_init Echo [PList [mk Variable [PStr ''$x'']]] None = Inr (mk Echo [PList [mk Variable [PStr ''$x'']]]) \<and>
   unparse_node (Args False None False) (mk Variable [PStr ''$x'']) True 0 initial_state
     = Inr (''x'', initial_state) \<and>
   unparse_node (Args False None False) (mk Echo [PList [mk Variable [PStr ''$x'']]]) False 0 initial_state
     = Inr (''{{ x | safe -}}'', initial_state)"
proof -
  let ?cfg = "Args False None False"
  let ?v = "mk Variable [PStr ''$x'']"
  let ?e = "mk Echo [PList [?v]]"
  have v: "Node_init Variable [PStr ''$x''] None = Inr ?v"
    by (simp add: node_defs)
  have e: "Node_init Echo [PList [?v]] None = Inr ?e"
    by (simp add: node_defs)
  from Echo_safe [where name = "''$x''" and ?l1.0 = None and v = ?v and cfg = ?cfg
      and is_expr = True and indent = 0 and s = initial_state] v
  have x: "unparse_node ?cfg ?v True 0 initial_state = Inr (''x'', initial_state)"
    by simp
  then have m: "mapS (\<lambda>x. unparse_node ?cfg x True 0) [?v] initial_state
      = Inr ([''x''], initial_state)"
    by (simp add: bindE_simps)
  from Echo_safe [where xs = "[?v]" and ?l2.0 = None and n = ?e and cfg = ?cfg
      and is_expr = False and indent = 0 and s = initial_state and ts = "[''x'']"
      and s' = initial_state] e m
  have "unparse_node ?cfg ?e False 0 initial_state = Inr (''{{ x | safe -}}'', initial_state)"
    by simp
  with v e x show ?thesis by simp
qed

text \<open>
  C2 as stated fails: the echo of the variable \<^verbatim>\<open>$x\<close> is rendered with the closing
  delimiter \<^verbatim>\<open>-}}\<close>, not \<^verbatim>\<open>}}\<close>.
\<close>

theorem Echo_variable_not_plain:
  "unparse_node (Args False None False) (mk Echo [PList [mk Variable [PStr ''$x'']]]) False 0
     initial_state = Inr (''{{ x | safe -}}'', initial_state) \<and>
   ''{{ x | safe -}}'' \<noteq> ''{{ x | safe }}''"
  by (simp add: eval_simps cong: bindE_weak_cong)

text \<open>
  C3 fails. An element of an array literal is an \<^verbatim>\<open>ArrayElement\<close>, whose fields are
  \<^verbatim>\<open>name\<close>, \<^verbatim>\<open>node\<close> and \<^verbatim>\<open>is_ref\<close> (phpast.py, line 99); the translator reads \<^verbatim>\<open>key\<close> and
  \<^verbatim>\<open>value\<close> (lines 100 and 106 to 110). Rendering a literal of one element raises
  AttributeError, whether the element has a key or not.
\<close>

theorem Array_nonempty_raises:
  "unparse_node (Args False None False)
     (mk Array [PList [mk ArrayElement [PNone, PInt 1, PBool False]]]) True 0 initial_state
     = Inl AttributeError \<and>
   unparse_node (Args False None False)
     (mk Array [PList [mk ArrayElement [PStr ''k'', PInt 1, PBool False]]]) True 0 initial_state
     = Inl AttributeError"
  by (simp add: eval_simps cong: bindE_weak_cong)

text \<open>
  C4. For an assignment whose left side is an array offset without an offset
  expression, the result is the tag \<^verbatim>\<open>{% do c.append(r) -%}\<close>, where \<open>c\<close> is the rendering
  of the container and \<open>r\<close> the rendering of the right side. For an assignment whose
  left side is not an array offset, or is an array offset with an offset expression,
  the result is the statement \<^verbatim>\<open>set l = r\<close> for the renderings \<open>l\<close> and \<open>r\<close> of the two
  sides: the tag \<^verbatim>\<open>{% set l = r -%}\<close>, or a line statement when line statements are on.
  The renderings are made from left to right, each from the state that the one
  before it has left.
\<close>

theorem Assignment_append:
  assumes n: "Node_init Assignment [lhs, rhs, is_ref] l = Inr n"
  shows "(Node_init ArrayOffset [container, PNone] l' = Inr lhs \<longrightarrow>
            unparse_node cfg container False 0 s = Inr (tc, s1) \<longrightarrow>
            unparse_node cfg rhs True 0 s1 = Inr (tr, s2) \<longrightarrow>
              unparse_node cfg n is_expr indent s
                = Inr (''{% do '' @ tc @ ''.append('' @ tr @ '') -%}'', s2)) \<and>
         ((\<forall>attrs. lhs \<noteq> Obj ArrayOffset attrs) \<or>
            (\<exists>e. e \<noteq> PNone \<and> Node_init ArrayOffset [container, e] l' = Inr lhs) \<longrightarrow>
            unparse_node cfg lhs True 0 s = Inr (tv, s1) \<longrightarrow>
            unparse_node cfg rhs True 0 s1 = Inr (tr, s2) \<longrightarrow>
              unparse_node cfg n is_expr indent s
                = Inr (if use_line_statements cfg
                       then NL @ ''# set '' @ tv @ '' = '' @ tr @ NL
                       else ''{% set '' @ tv @ '' = '' @ tr @ '' -%}'', s2))"
proof -
  from n have n': "n = Obj Assignment (init_attrs Assignment [lhs, rhs, is_ref] l)"
    by (rule Node_init_Inr)
  have A: "unparse_node cfg n is_expr indent s = unparse_Assignment cfg (unparse_node cfg) n s"
    unfolding n' by (simp add: chain_defs node_defs cong: bindE_weak_cong)
  have g: "getattr n ''node'' = Inr lhs" "getattr n ''expr'' = Inr rhs"
    unfolding n' by (simp_all add: node_defs)
  show ?thesis
  proof (intro conjI impI)
    assume "Node_init ArrayOffset [container, PNone] l' = Inr lhs"
      and c: "unparse_node cfg container False 0 s = Inr (tc, s1)"
      and r: "unparse_node cfg rhs True 0 s1 = Inr (tr, s2)"
    then have lhs: "lhs = Obj ArrayOffset (init_attrs ArrayOffset [container, PNone] l')"
      by (simp add: Node_init_Inr)
    have "isinstance lhs ''ArrayOffset'' = Inr True" "getattr lhs ''expr'' = Inr PNone"
      "getattr lhs ''node'' = Inr container"
      unfolding lhs by (simp_all add: isinstance_def global_names bindE_simps node_defs)
    with g c r show "unparse_node cfg n is_expr indent s
        = Inr (''{% do '' @ tc @ ''.append('' @ tr @ '') -%}'', s2)"
      unfolding A unparse_Assignment_def by (simp add: bindE_simps del: getattr.simps)
  next
    assume shape: "(\<forall>attrs. lhs \<noteq> Obj ArrayOffset attrs) \<or>
        (\<exists>e. e \<noteq> PNone \<and> Node_init ArrayOffset [container, e] l' = Inr lhs)"
      and c: "unparse_node cfg lhs True 0 s = Inr (tv, s1)"
      and r: "unparse_node cfg rhs True 0 s1 = Inr (tr, s2)"
    from shape have "bindE (isinstance lhs ''ArrayOffset'') (\<lambda>is_offset.
        if is_offset then bindE (getattr lhs ''expr'') (\<lambda>e. Inr (e = PNone)) else Inr False)
        = Inr False"
    proof
      assume "\<forall>attrs. lhs \<noteq> Obj ArrayOffset attrs"
      then have "isinstance lhs ''ArrayOffset'' = Inr False"
        by (cases lhs) (auto simp: isinstance_def global_names bindE_simps)
      then show ?thesis by (simp add: bindE_simps)
    next
      assume "\<exists>e. e \<noteq> PNone \<and> Node_init ArrayOffset [container, e] l' = Inr lhs"
      then obtain e where e: "e \<noteq> PNone"
        and lhs: "lhs = Obj ArrayOffset (init_attrs ArrayOffset [container, e] l')"
        by (auto dest: Node_init_Inr)
      have "isinstance lhs ''ArrayOffset'' = Inr True" "getattr lhs ''expr'' = Inr e"
        unfolding lhs by (simp_all add: isinstance_def global_names bindE_simps node_defs)
      with e show ?thesis by (simp add: bindE_simps del: getattr.simps)
    qed
    then have "unparse_Assignment cfg (unparse_node cfg) n s =
        bindE (unparse_node cfg lhs True 0 s) (\<lambda>(tl, s1).
            bindE (getattr n ''expr'') (\<lambda>rhs.
            bindE (unparse_node cfg rhs True 0 s1) (\<lambda>(tr, s2).
              Inr (jstatement cfg [''set'', tl, ''='', tr] 0 False False True, s2))))"
      unfolding unparse_Assignment_def g(1) bindE_simps
      by (cases "isinstance lhs ''ArrayOffset''") (auto simp: bindE_simps split: if_splits)
    with g c r show "unparse_node cfg n is_expr indent s
        = Inr (if use_line_statements cfg
               then NL @ ''# set '' @ tv @ '' = '' @ tr @ NL
               else ''{% set '' @ tv @ '' = '' @ tr @ '' -%}'', s2)"
      unfolding A by (simp add: bindE_simps jstatement_def str_times_def del: getattr.simps)
  qed
qed

theorem Assignment_append_witness:
  "Node_init Assignment
     [mk ArrayOffset [mk Variable [PStr ''$arr''], PNone], mk Variable [PStr ''$x''], PBool False] None
     = Inr (mk Assignment
         [mk ArrayOffset [mk Variable [PStr ''$arr''], PNone], mk Variable [PStr ''$x''], PBool False]) \<and>
   unparse_node (Args False None False)
     (mk Assignment
         [mk ArrayOffset [mk Variable [PStr ''$arr''], PNone], mk Variable [PStr ''$x''], PBool False])
     False 0 initial_state = Inr (''{% do arr.append(x) -%}'', initial_state) \<and>
   unparse_node (Args False None False)
     (mk Assignment [mk Variable [PStr ''$a''], mk Variable [PStr ''$x''], PBool False])
     False 0 initial_state = Inr (''{% set a = x -%}'', initial_state)"
proof -
  let ?cfg = "Args False None False"
  let ?arr = "mk Variable [PStr ''$arr'']"
  let ?a = "mk Variable [PStr ''$a'']"
  let ?x = "mk Variable [PStr ''$x'']"
  let ?off = "mk ArrayOffset [?arr, PNone]"
  let ?n1 = "mk Assignment [?off, ?x, PBool False]"
  let ?n2 = "mk Assignment [?a, ?x, PBool False]"
  have n1: "Node_init Assignment [?off, ?x, PBool False] None = Inr ?n1"
    by (simp add: node_defs)
  have n2: "Node_init Assignment [?a, ?x, PBool False] None = Inr ?n2"
    by (simp add: node_defs)
  have off: "Node_init ArrayOffset [?arr, PNone] None = Inr ?off"
    by (simp add: node_defs)
  have arr: "unparse_node ?cfg ?arr False 0 initial_state = Inr (''arr'', initial_state)"
    by (simp add: eval_simps cong: bindE_weak_cong)
  have a: "unparse_node ?cfg ?a True 0 initial_state = Inr (''a'', initial_state)"
    by (simp add: eval_simps cong: bindE_weak_cong)
  have x: "unparse_node ?cfg ?x True 0 initial_state = Inr (''x'', initial_state)"
    by (simp add: eval_simps cong: bindE_weak_cong)
  have shape: "\<forall>attrs. ?a \<noteq> Obj ArrayOffset attrs"
    by (simp add: node_defs)
  from Assignment_append [OF n1, where container = ?arr and l' = None and cfg = ?cfg
      and s = initial_state and tc = "''arr''" and ?s1.0 = initial_state and tr = "''x''"
      and ?s2.0 = initial_state and is_expr = False and indent = 0] off arr x
  have r1: "unparse_node ?cfg ?n1 False 0 initial_state
      = Inr (''{% do arr.append(x) -%}'', initial_state)"
    by simp
  from Assignment_append [OF n2, where container = ?arr and l' = None and cfg = ?cfg
      and s = initial_state and tv = "''a''" and ?s1.0 = initial_state and tr = "''x''"
      and ?s2.0 = initial_state and is_expr = False and indent = 0] shape a x
  have r2: "unparse_node ?cfg ?n2 False 0 initial_state
      = Inr (''{% set a = x -%}'', initial_state)"
    by simp
  from n1 r1 r2 show ?thesis by simp
qed

text \<open>
  C5 fails. A function call is not translated: the test of line 177 comes before the
  one of line 207 and raises NameError, so the registry is never filled and no stub is
  written. With a registry filled by hand with three calls of \<^verbatim>\<open>f\<close>, of 1, 3 and 2
  arguments, the loop writes the declaration with three parameters and then raises
  NameError when it renders the first example.
\<close>

theorem stubs_never_written:
  "run (\<lambda>xs. xs) (Args False (Some ''stubs.py'') False)
     [mk FunctionCall [PStr ''f'', PList [mk Parameter [PInt 1, PBool False]]],
      mk FunctionCall [PStr ''f'', PList [mk Parameter [PInt 1, PBool False],
         mk Parameter [PInt 2, PBool False], mk Parameter [PInt 3, PBool False]]],
      mk FunctionCall [PStr ''f'', PList [mk Parameter [PInt 1, PBool False],
         mk Parameter [PInt 2, PBool False]]]]
     = Outcome None None (Some NameError) \<and>
   stub_loop (\<lambda>xs. xs) (Args False (Some ''stubs.py'') False) [PStr ''f''] 1
     (State [(PStr ''f'',
       [mk FunctionCall [PStr ''f'', PList [mk Parameter [PInt 1, PBool False]]],
        mk FunctionCall [PStr ''f'', PList [mk Parameter [PInt 1, PBool False],
          mk Parameter [PInt 2, PBool False], mk Parameter [PInt 3, PBool False]]],
        mk FunctionCall [PStr ''f'', PList [mk Parameter [PInt 1, PBool False],
          mk Parameter [PInt 2, PBool False]]]])] 1)
     = (''def f(arg0, arg1, arg2):'' @ NL, Inl NameError)"
  by code_simp

text \<open>
  C9 fails. The \<^verbatim>\<open>While\<close> branch evaluates the names \<^verbatim>\<open>Foreach\<close> and \<^verbatim>\<open>ForeachVariable\<close>,
  which the module does not bind (phpast.py has \<^verbatim>\<open>ForEach\<close> and \<^verbatim>\<open>ForEachVariable\<close>):
  translating a while loop raises NameError before the counter is read, and no loop
  variable is made.
\<close>

theorem sibling_whiles_raise:
  "unparse (Args False None False)
     [mk While [mk Variable [PStr ''$a''], mk Block [PList []]],
      mk While [mk Variable [PStr ''$b''], mk Block [PList []]]] NL initial_state = Inl NameError \<and>
   unparse_node (Args False None False)
     (mk While [mk Variable [PStr ''$a''], mk Block [PList []]]) False 0 initial_state = Inl NameError"
  by (simp add: unparse_def eval_simps cong: bindE_weak_cong)

text \<open>
  C10. An array literal whose list of elements is empty is rendered as \<^verbatim>\<open>[]\<close>, in every
  configuration and position, and the state is left as it was.
\<close>

theorem Array_empty:
  assumes "Node_init Array [PList []] lineno = Inr n"
  shows "unparse_node cfg n is_expr indent s = Inr (''[]'', s)"
proof -
  from assms have "n = Obj Array (init_attrs Array [PList []] lineno)"
    by (rule Node_init_Inr)
  then show ?thesis
    by (simp add: eval_simps cong: bindE_weak_cong)
qed

theorem Array_empty_witness:
  "Node_init Array [PList []] None = Inr (mk Array [PList []]) \<and>
   unparse_node (Args False None False) (mk Array [PList []]) True 0 initial_state
     = Inr (''[]'', initial_state)"
proof -
  have a: "Node_init Array [PList []] None = Inr (mk Array [PList []])"
    by (simp add: node_defs)
  from Array_empty [OF a] a show ?thesis by simp
qed

end
